theory Spec2Isabelle
  imports Main
begin

section \<open>Semantic conflict detection (merge/semantic_conflict_detector.py)\<close>

text \<open>
  A shallow embedding of the semantic conflict detector. Python dictionaries keep
  insertion order and the detectors iterate over them, so every dictionary is an
  association list with distinct keys in insertion order. Python's \<open>ast\<close> module is
  outside the repository: its two entry points used here, \<open>ast.parse\<close> and
  \<open>ast.unparse\<close>, are fields of a record that every operation takes as its first
  argument.
\<close>

subsection \<open>Python dictionaries and strings\<close>

type_synonym ('k, 'v) dict = "('k \<times> 'v) list"

text \<open>\<open>d[k] = v\<close>: an existing key keeps its position, a new key goes last.\<close>

fun dict_set :: "('k, 'v) dict \<Rightarrow> 'k \<Rightarrow> 'v \<Rightarrow> ('k, 'v) dict" where
  "dict_set [] k v = [(k, v)]"
| "dict_set ((k', v') # d) k v =
     (if k' = k then (k, v) # d else (k', v') # dict_set d k v)"

text \<open>\<open>d.get(k)\<close> and \<open>k in d\<close>.\<close>

definition dict_get :: "('k, 'v) dict \<Rightarrow> 'k \<Rightarrow> 'v option" where
  "dict_get d k = map_of d k"

definition dict_has :: "('k, 'v) dict \<Rightarrow> 'k \<Rightarrow> bool" where
  "dict_has d k = (dict_get d k \<noteq> None)"

text \<open>
  \<open>if name not in d: d[name] = []\<close> followed by \<open>d[name].append(line)\<close>, the body of
  \<open>add_usage\<close> and \<open>add_function_call\<close>.
\<close>

definition dict_append :: "('k, 'v list) dict \<Rightarrow> 'k \<Rightarrow> 'v \<Rightarrow> ('k, 'v list) dict" where
  "dict_append d k x =
     dict_set d k ((case dict_get d k of None \<Rightarrow> [] | Some xs \<Rightarrow> xs) @ [x])"

text \<open>Truthiness of a \<open>str | None\<close> value: \<open>None\<close> and the empty string are false.\<close>

fun truthy :: "string option \<Rightarrow> bool" where
  "truthy None = False"
| "truthy (Some s) = (s \<noteq> [])"

text \<open>\<open>sub in s\<close> on strings.\<close>

fun starts_with :: "string \<Rightarrow> string \<Rightarrow> bool" where
  "starts_with [] s = True"
| "starts_with (p # ps) [] = False"
| "starts_with (p # ps) (c # cs) = (p = c \<and> starts_with ps cs)"

fun str_contains :: "string \<Rightarrow> string \<Rightarrow> bool" where
  "str_contains sub [] = (sub = [])"
| "str_contains sub (c # cs) = (starts_with sub (c # cs) \<or> str_contains sub cs)"

text \<open>\<open>str(n)\<close> for an integer and the \<open>repr\<close> of a list of integers, as f-strings print them.\<close>

definition digit_char :: "nat \<Rightarrow> char" where
  "digit_char n = char_of (48 + n)"

fun str_nat :: "nat \<Rightarrow> string" where
  "str_nat n = (if n < 10 then [digit_char n] else str_nat (n div 10) @ [digit_char (n mod 10)])"

declare str_nat.simps [simp del]

definition str_int :: "int \<Rightarrow> string" where
  "str_int i = (if i < 0 then CHR ''-'' # str_nat (nat (- i)) else str_nat (nat i))"

fun join_comma :: "string list \<Rightarrow> string" where
  "join_comma [] = []"
| "join_comma [s] = s"
| "join_comma (s # t # ss) = s @ '', '' @ join_comma (t # ss)"

definition repr_lines :: "int list \<Rightarrow> string" where
  "repr_lines xs = ''['' @ join_comma (map str_int xs) @ '']''"

subsection \<open>The file extension: \<open>Path(file_path).suffix.lower()\<close>\<close>

text \<open>
  The standard library's pure POSIX path: the path is split at \<open>/\<close>, empty and \<open>.\<close>
  components are dropped, the name is the last component left (empty when none is),
  and the suffix is the name from its last dot on when that dot is neither the first
  nor the last character of the name. \<open>lower\<close> is modelled on ASCII letters.
\<close>

fun split_slash :: "string \<Rightarrow> string list" where
  "split_slash [] = [[]]"
| "split_slash (c # cs) =
     (if c = CHR ''/'' then [] # split_slash cs
      else (case split_slash cs of [] \<Rightarrow> [[c]] | w # ws \<Rightarrow> (c # w) # ws))"

definition path_name :: "string \<Rightarrow> string" where
  "path_name p =
     (let parts = filter (\<lambda>x. x \<noteq> [] \<and> x \<noteq> ''.'') (split_slash p)
      in if parts = [] then [] else last parts)"

fun rfind_from :: "char \<Rightarrow> string \<Rightarrow> int \<Rightarrow> int \<Rightarrow> int" where
  "rfind_from c [] i r = r"
| "rfind_from c (x # xs) i r = rfind_from c xs (i + 1) (if x = c then i else r)"

definition rfind :: "char \<Rightarrow> string \<Rightarrow> int" where
  "rfind c s = rfind_from c s 0 (- 1)"

definition path_suffix :: "string \<Rightarrow> string" where
  "path_suffix p =
     (let name = path_name p; i = rfind (CHR ''.'') name
      in if 0 < i \<and> i < int (length name) - 1 then drop (nat i) name else [])"

definition lower_char :: "char \<Rightarrow> char" where
  "lower_char c =
     (let n = (of_char c :: nat) in if 65 \<le> n \<and> n \<le> 90 then char_of (n + 32) else c)"

definition str_lower :: "string \<Rightarrow> string" where
  "str_lower s = map lower_char s"

subsection \<open>The data model (merge/types.py)\<close>

text \<open>
  Modelled from the spec: \<open>merge/types.py\<close>, which declares \<open>ChangeType\<close>,
  \<open>ConflictSeverity\<close>, \<open>MergeStrategy\<close>, \<open>SemanticChange\<close>, \<open>FileAnalysis\<close> and
  \<open>ConflictRegion\<close>, is not among the sources. The enumerations list the members that
  the detector, its tests and the spec name; one further constructor stands for the
  members declared only there. The records have the fields that the detector reads
  and writes.
\<close>

datatype ChangeType =
    RENAME_FUNCTION | REMOVE_IMPORT | MODIFY_VARIABLE | MODIFY_FUNCTION | ADD_FUNCTION
  | UNKNOWN | OtherChange string

datatype ConflictSeverity = LOW | MEDIUM | HIGH | CRITICAL

datatype MergeStrategy = HUMAN_REQUIRED | OtherStrategy string

record SemanticChange =
  change_type :: ChangeType
  target :: string
  location :: string
  line_start :: int
  line_end :: int
  content_before :: "string option"
  content_after :: "string option"

record FileAnalysis =
  file_path :: string
  changes :: "SemanticChange list"

record ConflictRegion =
  cr_file_path :: string
  cr_location :: string
  tasks_involved :: "string list"
  change_types :: "ChangeType list"
  severity :: ConflictSeverity
  can_auto_merge :: bool
  merge_strategy :: MergeStrategy
  reason :: string

subsection \<open>SemanticConflict and SymbolTable\<close>

text \<open>The values of the free-form \<open>metadata\<close> dictionary are strings and lists of lines.\<close>

datatype meta_value = MetaStr string | MetaLines "int list"

record SemanticConflict =
  conflict_type :: string
  sc_file_path :: string
  sc_location :: string
  sc_tasks_involved :: "string list"
  description :: string
  line_number :: int
  sc_severity :: ConflictSeverity
  suggestion :: "string option"
  metadata :: "(string, meta_value) dict"

record SymbolTable =
  definitions :: "(string, string \<times> int \<times> string) dict"
  usages :: "(string, int list) dict"
  imports' :: "(string, string) dict"
  function_calls :: "(string, int list) dict"
  function_signatures :: "(string, string option) dict"

definition empty_table :: SymbolTable where
  "empty_table = \<lparr>definitions = [], usages = [], imports' = [], function_calls = [],
     function_signatures = []\<rparr>"

definition add_definition :: "string \<Rightarrow> string \<Rightarrow> int \<Rightarrow> string \<Rightarrow> SymbolTable \<Rightarrow> SymbolTable" where
  "add_definition name def_type line scope t =
     t\<lparr>definitions := dict_set (definitions t) name (def_type, line, scope)\<rparr>"

definition add_usage :: "string \<Rightarrow> int \<Rightarrow> SymbolTable \<Rightarrow> SymbolTable" where
  "add_usage name line t = t\<lparr>usages := dict_append (usages t) name line\<rparr>"

definition add_import :: "string \<Rightarrow> string \<Rightarrow> SymbolTable \<Rightarrow> SymbolTable" where
  "add_import symbol module t = t\<lparr>imports' := dict_set (imports' t) symbol module\<rparr>"

definition add_function_call :: "string \<Rightarrow> int \<Rightarrow> SymbolTable \<Rightarrow> SymbolTable" where
  "add_function_call func_name line t =
     t\<lparr>function_calls := dict_append (function_calls t) func_name line\<rparr>"

definition add_function_signature :: "string \<Rightarrow> string option \<Rightarrow> SymbolTable \<Rightarrow> SymbolTable" where
  "add_function_signature func_name return_type t =
     t\<lparr>function_signatures := dict_set (function_signatures t) func_name return_type\<rparr>"

subsection \<open>Python syntax trees\<close>

text \<open>
  The node classes that \<open>PythonSymbolExtractor\<close> inspects, each with its line number,
  the fields the visitor reads and its child nodes in the field order that
  \<open>generic_visit\<close> follows. Every other node class is \<open>Node\<close> with its children in
  field order. An \<open>alias\<close> is the pair of its \<open>name\<close> and \<open>asname\<close>; it has no
  child nodes.
\<close>

datatype expr_context = Load | Store | Del

type_synonym alias_node = "string \<times> string option"

datatype node =
    Import int "alias_node list"
  | ImportFrom int "string option" "alias_node list"
  | FunctionDef int string node "node list" "node list" "node option" "node list"
  | AsyncFunctionDef int string node "node list" "node list" "node option" "node list"
  | ClassDef int string "node list" "node list" "node list" "node list" "node list"
  | Assign int "node list" node
  | AnnAssign int node node "node option"
  | Name int string expr_context
  | Call int node "node list" "node list"
  | Attribute int node string expr_context
  | Node "node list"

text \<open>
  \<open>ast.parse\<close> either raises or returns a tree; \<open>SyntaxError\<close> and every other
  exception are the two handlers of \<open>build_symbol_table\<close>.
\<close>

datatype py_error = SyntaxError | OtherException string

record ast_module =
  parse :: "string \<Rightarrow> py_error + node"
  unparse :: "node \<Rightarrow> string"

subsection \<open>PythonSymbolExtractor\<close>

record PythonSymbolExtractor =
  symbol_table :: SymbolTable
  current_scope :: string

definition new_extractor :: PythonSymbolExtractor where
  "new_extractor = \<lparr>symbol_table = empty_table, current_scope = ''module''\<rparr>"

definition on_table ::
  "(SymbolTable \<Rightarrow> SymbolTable) \<Rightarrow> PythonSymbolExtractor \<Rightarrow> PythonSymbolExtractor" where
  "on_table f ex = ex\<lparr>symbol_table := f (symbol_table ex)\<rparr>"

text \<open>\<open>alias.asname if alias.asname else alias.name\<close>\<close>

definition bound_name :: "alias_node \<Rightarrow> string" where
  "bound_name a = (if truthy (snd a) then the (snd a) else fst a)"

text \<open>The loop bodies of \<open>visit_Import\<close> and \<open>visit_ImportFrom\<close>.\<close>

definition import_alias :: "int \<Rightarrow> alias_node \<Rightarrow> PythonSymbolExtractor \<Rightarrow> PythonSymbolExtractor" where
  "import_alias lineno a ex =
     on_table (add_definition (bound_name a) ''import'' lineno (current_scope ex))
       (on_table (add_import (bound_name a) (fst a)) ex)"

definition import_from_alias ::
  "int \<Rightarrow> string \<Rightarrow> alias_node \<Rightarrow> PythonSymbolExtractor \<Rightarrow> PythonSymbolExtractor" where
  "import_from_alias lineno module a ex =
     on_table (add_definition (bound_name a) ''import'' lineno (current_scope ex))
       (on_table (add_import (bound_name a) (module @ ''.'' @ fst a)) ex)"

text \<open>The part of \<open>visit_FunctionDef\<close> before the body is visited.\<close>

definition define_function ::
  "string \<Rightarrow> int \<Rightarrow> string \<Rightarrow> string option \<Rightarrow> PythonSymbolExtractor \<Rightarrow> PythonSymbolExtractor" where
  "define_function def_type lineno name return_type ex =
     on_table (add_function_signature name return_type)
       (on_table (add_definition name def_type lineno (current_scope ex)) ex)"

text \<open>The loop body of \<open>visit_Assign\<close> and the test of \<open>visit_AnnAssign\<close>.\<close>

fun assign_target :: "int \<Rightarrow> node \<Rightarrow> PythonSymbolExtractor \<Rightarrow> PythonSymbolExtractor" where
  "assign_target lineno (Name l ident ctx) ex =
     on_table (add_definition ident ''variable'' lineno (current_scope ex)) ex"
| "assign_target lineno n ex = ex"

text \<open>The test of \<open>visit_Call\<close> on \<open>node.func\<close>.\<close>

fun call_target :: "int \<Rightarrow> node \<Rightarrow> PythonSymbolExtractor \<Rightarrow> PythonSymbolExtractor" where
  "call_target lineno (Name l ident ctx) ex = on_table (add_function_call ident lineno) ex"
| "call_target lineno (Attribute l v attr ctx) ex = on_table (add_function_call attr lineno) ex"
| "call_target lineno n ex = ex"

text \<open>
  \<open>visit\<close> dispatches on the node class; a class without a visitor method and the
  tail of every visitor method go through \<open>generic_visit\<close>, which visits the child
  nodes in field order. The first argument is \<open>ast.unparse\<close>.
\<close>

fun visit :: "(node \<Rightarrow> string) \<Rightarrow> node \<Rightarrow> PythonSymbolExtractor \<Rightarrow> PythonSymbolExtractor" where
  "visit unp (Import lineno names) ex = fold (import_alias lineno) names ex"
| "visit unp (ImportFrom lineno module names) ex =
     fold (import_from_alias lineno (case module of None \<Rightarrow> [] | Some m \<Rightarrow> m)) names ex"
| "visit unp (FunctionDef lineno name args body decorator_list returns type_params) ex =
     (let return_type = map_option unp returns;
          ex1 = define_function ''function'' lineno name return_type ex;
          old_scope = current_scope ex1;
          ex2 = ex1\<lparr>current_scope := ''function:'' @ name\<rparr>;
          ex3 = visit unp args ex2;
          ex4 = fold (\<lambda>n s. visit unp n s) body ex3;
          ex5 = fold (\<lambda>n s. visit unp n s) decorator_list ex4;
          ex6 = (case returns of None \<Rightarrow> ex5 | Some r \<Rightarrow> visit unp r ex5);
          ex7 = fold (\<lambda>n s. visit unp n s) type_params ex6
      in ex7\<lparr>current_scope := old_scope\<rparr>)"
| "visit unp (AsyncFunctionDef lineno name args body decorator_list returns type_params) ex =
     (let return_type = map_option unp returns;
          ex1 = define_function ''async_function'' lineno name return_type ex;
          old_scope = current_scope ex1;
          ex2 = ex1\<lparr>current_scope := ''function:'' @ name\<rparr>;
          ex3 = visit unp args ex2;
          ex4 = fold (\<lambda>n s. visit unp n s) body ex3;
          ex5 = fold (\<lambda>n s. visit unp n s) decorator_list ex4;
          ex6 = (case returns of None \<Rightarrow> ex5 | Some r \<Rightarrow> visit unp r ex5);
          ex7 = fold (\<lambda>n s. visit unp n s) type_params ex6
      in ex7\<lparr>current_scope := old_scope\<rparr>)"
| "visit unp (ClassDef lineno name bases keywords body decorator_list type_params) ex =
     (let ex1 = on_table (add_definition name ''class'' lineno (current_scope ex)) ex;
          old_scope = current_scope ex1;
          ex2 = ex1\<lparr>current_scope := ''class:'' @ name\<rparr>;
          ex3 = fold (\<lambda>n s. visit unp n s) bases ex2;
          ex4 = fold (\<lambda>n s. visit unp n s) keywords ex3;
          ex5 = fold (\<lambda>n s. visit unp n s) body ex4;
          ex6 = fold (\<lambda>n s. visit unp n s) decorator_list ex5;
          ex7 = fold (\<lambda>n s. visit unp n s) type_params ex6
      in ex7\<lparr>current_scope := old_scope\<rparr>)"
| "visit unp (Assign lineno targets val) ex =
     (let ex1 = fold (assign_target lineno) targets ex;
          ex2 = fold (\<lambda>n s. visit unp n s) targets ex1
      in visit unp val ex2)"
| "visit unp (AnnAssign lineno tgt annotation val) ex =
     (let ex1 = assign_target lineno tgt ex;
          ex2 = visit unp tgt ex1;
          ex3 = visit unp annotation ex2
      in (case val of None \<Rightarrow> ex3 | Some v \<Rightarrow> visit unp v ex3))"
| "visit unp (Name lineno ident ctx) ex =
     (if ctx = Load then on_table (add_usage ident lineno) ex else ex)"
| "visit unp (Call lineno func args keywords) ex =
     (let ex1 = call_target lineno func ex;
          ex2 = visit unp func ex1;
          ex3 = fold (\<lambda>n s. visit unp n s) args ex2
      in fold (\<lambda>n s. visit unp n s) keywords ex3)"
| "visit unp (Attribute lineno v attr ctx) ex = visit unp v ex"
| "visit unp (Node children) ex = fold (\<lambda>n s. visit unp n s) children ex"

subsection \<open>build_symbol_table\<close>

definition build_symbol_table :: "ast_module \<Rightarrow> string \<Rightarrow> string \<Rightarrow> SymbolTable option" where
  "build_symbol_table py fp content =
     (let ext = str_lower (path_suffix fp)
      in if ext \<noteq> ''.py'' then None
         else (case parse py content of
                 Inl SyntaxError \<Rightarrow> None
               | Inl (OtherException e) \<Rightarrow> None
               | Inr tree \<Rightarrow> Some (symbol_table (visit (unparse py) tree new_extractor))))"

subsection \<open>The detectors\<close>

type_synonym task_analyses = "(string, FileAnalysis) dict"

text \<open>\<open>file_contents\<close>: task id to (content before, content after).\<close>

type_synonym file_contents = "(string, string \<times> string) dict"

definition quoted :: "string \<Rightarrow> string" where
  "quoted s = [CHR 0x27] @ s @ [CHR 0x27]"

text \<open>\<open>lines[0] if lines else 0\<close>\<close>

definition first_line :: "int list \<Rightarrow> int" where
  "first_line ls = (case ls of [] \<Rightarrow> 0 | l # rest \<Rightarrow> l)"

text \<open>\<open>next(iter(task_analyses.values())).file_path\<close>, read only when the dictionary is not empty.\<close>

definition first_file_path :: "task_analyses \<Rightarrow> string" where
  "first_file_path tas = file_path (snd (hd tas))"

subsubsection \<open>detect_function_rename_conflicts\<close>

text \<open>\<open>renames\<close>: old name to (new name, task id). Both names are \<open>change.target\<close>.\<close>

type_synonym renames = "(string, string \<times> string) dict"

definition record_rename :: "string \<Rightarrow> SemanticChange \<Rightarrow> renames \<Rightarrow> renames" where
  "record_rename task_id change rn =
     (if change_type change = RENAME_FUNCTION
      then (if truthy (content_before change) \<and> truthy (content_after change)
            then (let old_name = target change in dict_set rn old_name (target change, task_id))
            else rn)
      else rn)"

definition find_renames :: "task_analyses \<Rightarrow> renames" where
  "find_renames tas =
     fold (\<lambda>(task_id, analysis) rn. fold (record_rename task_id) (changes analysis) rn) tas []"

definition rename_conflict ::
  "string \<Rightarrow> string \<Rightarrow> string \<Rightarrow> string \<Rightarrow> string \<Rightarrow> int list \<Rightarrow> SemanticConflict" where
  "rename_conflict fp old_name new_name rename_task_id task_id call_lines =
     \<lparr>conflict_type = ''function_rename'',
      sc_file_path = fp,
      sc_location = ''function:'' @ old_name,
      sc_tasks_involved = [rename_task_id, task_id],
      description = ''Task '' @ rename_task_id @ '' renamed function '' @ quoted old_name
        @ '' to '' @ quoted new_name @ '', but task '' @ task_id @ '' still calls ''
        @ quoted old_name @ '' at line(s) '' @ repr_lines call_lines,
      line_number = first_line call_lines,
      sc_severity = HIGH,
      suggestion = Some (''Update function calls from '' @ quoted old_name @ '' to ''
        @ quoted new_name @ '' in task '' @ task_id),
      metadata = [(''old_name'', MetaStr old_name), (''new_name'', MetaStr new_name),
        (''call_lines'', MetaLines call_lines)]\<rparr>"

text \<open>The body of the inner loop over \<open>renames.items()\<close>.\<close>

definition check_rename ::
  "string \<Rightarrow> string \<Rightarrow> SymbolTable \<Rightarrow> string \<times> string \<times> string \<Rightarrow> SemanticConflict list" where
  "check_rename fp task_id tbl entry =
     (case entry of (old_name, new_name, rename_task_id) \<Rightarrow>
        if rename_task_id = task_id then []
        else (case dict_get (function_calls tbl) old_name of
                None \<Rightarrow> []
              | Some call_lines \<Rightarrow>
                  [rename_conflict fp old_name new_name rename_task_id task_id call_lines]))"

text \<open>The body of the outer loop over \<open>file_contents.items()\<close>.\<close>

definition rename_conflicts_of_task ::
  "ast_module \<Rightarrow> string \<Rightarrow> renames \<Rightarrow> string \<times> string \<times> string \<Rightarrow> SemanticConflict list" where
  "rename_conflicts_of_task py fp rn item =
     (case item of (task_id, before_content, after_content) \<Rightarrow>
        (case build_symbol_table py fp after_content of
           None \<Rightarrow> []
         | Some tbl \<Rightarrow> concat (map (check_rename fp task_id tbl) rn)))"

definition detect_function_rename_conflicts ::
  "ast_module \<Rightarrow> task_analyses \<Rightarrow> file_contents \<Rightarrow> SemanticConflict list" where
  "detect_function_rename_conflicts py tas fc =
     (if tas = [] then []
      else (let fp = first_file_path tas; rn = find_renames tas
            in concat (map (rename_conflicts_of_task py fp rn) fc)))"

subsubsection \<open>detect_import_removal_conflicts\<close>

text \<open>\<open>removals\<close>: symbol to task id.\<close>

type_synonym removals = "(string, string) dict"

definition record_removal :: "string \<Rightarrow> SemanticChange \<Rightarrow> removals \<Rightarrow> removals" where
  "record_removal task_id change rm =
     (if change_type change = REMOVE_IMPORT then dict_set rm (target change) task_id else rm)"

definition find_removals :: "task_analyses \<Rightarrow> removals" where
  "find_removals tas =
     fold (\<lambda>(task_id, analysis) rm. fold (record_removal task_id) (changes analysis) rm) tas []"

definition import_conflict ::
  "string \<Rightarrow> string \<Rightarrow> string \<Rightarrow> string \<Rightarrow> int list \<Rightarrow> SemanticConflict" where
  "import_conflict fp symbol removal_task_id task_id usage_lines =
     \<lparr>conflict_type = ''import_removal'',
      sc_file_path = fp,
      sc_location = ''import:'' @ symbol,
      sc_tasks_involved = [removal_task_id, task_id],
      description = ''Task '' @ removal_task_id @ '' removed import of '' @ quoted symbol
        @ '', but task '' @ task_id @ '' uses it at line(s) '' @ repr_lines usage_lines
        @ '' without importing it'',
      line_number = first_line usage_lines,
      sc_severity = CRITICAL,
      suggestion = Some (''Task '' @ task_id @ '' should import '' @ quoted symbol
        @ '' explicitly''),
      metadata = [(''symbol'', MetaStr symbol), (''usage_lines'', MetaLines usage_lines)]\<rparr>"

definition check_removal ::
  "string \<Rightarrow> string \<Rightarrow> SymbolTable \<Rightarrow> string \<times> string \<Rightarrow> SemanticConflict list" where
  "check_removal fp task_id tbl entry =
     (case entry of (symbol, removal_task_id) \<Rightarrow>
        if removal_task_id = task_id then []
        else (case dict_get (usages tbl) symbol of
                None \<Rightarrow> []
              | Some usage_lines \<Rightarrow>
                  if \<not> dict_has (imports' tbl) symbol
                  then [import_conflict fp symbol removal_task_id task_id usage_lines]
                  else []))"

definition removal_conflicts_of_task ::
  "ast_module \<Rightarrow> string \<Rightarrow> removals \<Rightarrow> string \<times> string \<times> string \<Rightarrow> SemanticConflict list" where
  "removal_conflicts_of_task py fp rm item =
     (case item of (task_id, before_content, after_content) \<Rightarrow>
        (case build_symbol_table py fp after_content of
           None \<Rightarrow> []
         | Some tbl \<Rightarrow> concat (map (check_removal fp task_id tbl) rm)))"

definition detect_import_removal_conflicts ::
  "ast_module \<Rightarrow> task_analyses \<Rightarrow> file_contents \<Rightarrow> SemanticConflict list" where
  "detect_import_removal_conflicts py tas fc =
     (if tas = [] then []
      else (let fp = first_file_path tas; rm = find_removals tas
            in concat (map (removal_conflicts_of_task py fp rm) fc)))"

subsubsection \<open>detect_variable_rename_conflicts\<close>

definition detect_variable_rename_conflicts ::
  "ast_module \<Rightarrow> task_analyses \<Rightarrow> file_contents \<Rightarrow> SemanticConflict list" where
  "detect_variable_rename_conflicts py tas fc = []"

subsubsection \<open>detect_type_change_conflicts\<close>

text \<open>\<open>type_changes\<close>: function name to (old type, new type, task id).\<close>

type_synonym type_changes = "(string, string option \<times> string option \<times> string) dict"

text \<open>
  The body of the loop over the keys of \<open>after_symbols.function_signatures\<close>. The
  second lookup is of a key of the dictionary being walked and always finds it.
\<close>

definition record_type_change ::
  "string \<Rightarrow> SymbolTable \<Rightarrow> SymbolTable \<Rightarrow> string \<Rightarrow> type_changes \<Rightarrow> type_changes" where
  "record_type_change task_id before_symbols after_symbols func_name tc =
     (case dict_get (function_signatures before_symbols) func_name of
        None \<Rightarrow> tc
      | Some old_type \<Rightarrow>
          (case dict_get (function_signatures after_symbols) func_name of
             None \<Rightarrow> tc
           | Some new_type \<Rightarrow>
               if old_type \<noteq> new_type
               then dict_set tc func_name (old_type, new_type, task_id)
               else tc))"

text \<open>The body of the loop over \<open>file_contents.items()\<close>.\<close>

definition type_changes_of_task ::
  "ast_module \<Rightarrow> string \<Rightarrow> string \<times> string \<times> string \<Rightarrow> type_changes \<Rightarrow> type_changes" where
  "type_changes_of_task py fp item tc =
     (case item of (task_id, before_content, after_content) \<Rightarrow>
        (case build_symbol_table py fp before_content of
           None \<Rightarrow> tc
         | Some before_symbols \<Rightarrow>
             (case build_symbol_table py fp after_content of
                None \<Rightarrow> tc
              | Some after_symbols \<Rightarrow>
                  fold (record_type_change task_id before_symbols after_symbols)
                    (map fst (function_signatures after_symbols)) tc)))"

definition find_type_changes :: "ast_module \<Rightarrow> string \<Rightarrow> file_contents \<Rightarrow> type_changes" where
  "find_type_changes py fp fc = fold (type_changes_of_task py fp) fc []"

definition type_conflict :: "string \<Rightarrow> string \<Rightarrow> string \<Rightarrow> string \<Rightarrow> string \<Rightarrow> SemanticConflict" where
  "type_conflict fp func_name old_type new_type change_task_id =
     \<lparr>conflict_type = ''type_change'',
      sc_file_path = fp,
      sc_location = ''function:'' @ func_name,
      sc_tasks_involved = [change_task_id],
      description = ''Task '' @ change_task_id @ '' changed return type of ''
        @ quoted func_name @ '' from '' @ quoted old_type @ '' to '' @ quoted new_type
        @ '' (added None). This may break callers that don'' @ [CHR 0x27]
        @ ''t handle None.'',
      line_number = 0,
      sc_severity = MEDIUM,
      suggestion = Some (''Review all callers of '' @ quoted func_name
        @ '' to ensure they handle None''),
      metadata = [(''function'', MetaStr func_name), (''old_type'', MetaStr old_type),
        (''new_type'', MetaStr new_type)]\<rparr>"

text \<open>The body of the loop over \<open>type_changes.items()\<close>.\<close>

definition check_type_change ::
  "string \<Rightarrow> string \<times> string option \<times> string option \<times> string \<Rightarrow> SemanticConflict list" where
  "check_type_change fp entry =
     (case entry of (func_name, old_type, new_type, change_task_id) \<Rightarrow>
        if truthy old_type \<and> truthy new_type
        then (if str_contains ''None'' (the new_type) \<and> \<not> str_contains ''None'' (the old_type)
              then [type_conflict fp func_name (the old_type) (the new_type) change_task_id]
              else [])
        else [])"

definition detect_type_change_conflicts ::
  "ast_module \<Rightarrow> task_analyses \<Rightarrow> file_contents \<Rightarrow> SemanticConflict list" where
  "detect_type_change_conflicts py tas fc =
     (if tas = [] then []
      else (let fp = first_file_path tas
            in concat (map (check_type_change fp) (find_type_changes py fp fc))))"

subsubsection \<open>detect_semantic_conflicts\<close>

text \<open>\<open>change_type_map.get(conflict.conflict_type, ChangeType.UNKNOWN)\<close>\<close>

definition change_type_map :: "string \<Rightarrow> ChangeType" where
  "change_type_map kind =
     (if kind = ''function_rename'' then RENAME_FUNCTION
      else if kind = ''import_removal'' then REMOVE_IMPORT
      else if kind = ''variable_rename'' then MODIFY_VARIABLE
      else if kind = ''type_change'' then MODIFY_FUNCTION
      else UNKNOWN)"

definition full_reason :: "SemanticConflict \<Rightarrow> string" where
  "full_reason conflict =
     (let reason_prefix = ''[Semantic: '' @ conflict_type conflict @ ''] '';
          r = reason_prefix @ description conflict
      in if truthy (suggestion conflict) then r @ '' Suggestion: '' @ the (suggestion conflict)
         else r)"

definition to_region :: "SemanticConflict \<Rightarrow> ConflictRegion" where
  "to_region conflict =
     \<lparr>cr_file_path = sc_file_path conflict,
      cr_location = sc_location conflict,
      tasks_involved = sc_tasks_involved conflict,
      change_types = replicate (length (sc_tasks_involved conflict))
        (change_type_map (conflict_type conflict)),
      severity = sc_severity conflict,
      can_auto_merge = False,
      merge_strategy = HUMAN_REQUIRED,
      reason = full_reason conflict\<rparr>"

definition detect_semantic_conflicts ::
  "ast_module \<Rightarrow> task_analyses \<Rightarrow> file_contents \<Rightarrow> ConflictRegion list" where
  "detect_semantic_conflicts py tas fc =
     (if tas = [] then []
      else (let all_conflicts =
                  detect_function_rename_conflicts py tas fc
                  @ detect_import_removal_conflicts py tas fc
                  @ detect_variable_rename_conflicts py tas fc
                  @ detect_type_change_conflicts py tas fc
            in map to_region all_conflicts))"

subsection \<open>Example inputs\<close>

text \<open>
  The source texts of the repository's tests, with the trees that \<open>ast.parse\<close> returns
  for them (Python 3.9 and later) and the text that \<open>ast.unparse\<close> returns for their
  return annotations. \<open>example_ast\<close> answers on these texts only.
\<close>

definition src_caller_before :: string where
  "src_caller_before =
     ''\<newline>def foo():\<newline>    pass\<newline>\<newline>def caller():\<newline>    return 5\<newline>''"

definition src_caller_after :: string where
  "src_caller_after =
     ''\<newline>def foo():\<newline>    pass\<newline>\<newline>def caller():\<newline>    result = foo()\<newline>    return result\<newline>''"

definition src_renamed_after :: string where
  "src_renamed_after =
     ''\<newline>def bar():\<newline>    pass\<newline>\<newline>def caller():\<newline>    bar()\<newline>''"

definition src_process_after :: string where
  "src_process_after =
     ''\<newline>def foo():\<newline>    return []\<newline>\<newline>def process(items: List[int]) -> int:\<newline>    return sum(items)\<newline>''"

definition src_user :: string where
  "src_user =
     ''\<newline>def get_user() -> User:\<newline>    return User()\<newline>''"

definition src_user_or_none :: string where
  "src_user_or_none =
     ''\<newline>def get_user() -> User | None:\<newline>    return None\<newline>''"

definition src_user_optional :: string where
  "src_user_optional =
     ''\<newline>def get_user() -> Optional[User]:\<newline>    return None\<newline>''"

definition src_user_int :: string where
  "src_user_int =
     ''\<newline>def get_user() -> int:\<newline>    return 0\<newline>''"

definition src_user_plain :: string where
  "src_user_plain =
     ''\<newline>def get_user():\<newline>    return User()\<newline>''"

definition src_broken :: string where
  "src_broken =
     ''\<newline>def foo(\<newline>    # Incomplete function definition\<newline>''"

definition src_process_before :: string where
  "src_process_before =
     ''\<newline>def foo():\<newline>    return []\<newline>''"

definition tree_process_before :: node where
  "tree_process_before = Node
     [FunctionDef 2 ''foo'' (Node []) [Node [Node [Node []]]] [] None []]"

definition src_renamed_before :: string where
  "src_renamed_before =
     ''\<newline>def foo():\<newline>    pass\<newline>\<newline>def caller():\<newline>    foo()\<newline>''"

definition tree_renamed_before :: node where
  "tree_renamed_before = Node
     [FunctionDef 2 ''foo'' (Node []) [Node []] [] None [],
      FunctionDef 5 ''caller'' (Node [])
        [Node [Call 6 (Name 6 ''foo'' Load) [] []]]
        [] None []]"

definition src_unused_before :: string where
  "src_unused_before =
     ''\<newline>import os\<newline>\<newline>def foo():\<newline>    return 5\<newline>''"

definition src_unused_after :: string where
  "src_unused_after =
     ''\<newline>def foo():\<newline>    return 5\<newline>''"

definition tree_unused_before :: node where
  "tree_unused_before = Node
     [Import 2 [(''os'', None)],
      FunctionDef 4 ''foo'' (Node []) [Node [Node []]] [] None []]"

definition tree_unused_after :: node where
  "tree_unused_after = Node
     [FunctionDef 2 ''foo'' (Node []) [Node [Node []]] [] None []]"

definition tree_caller_before :: node where
  "tree_caller_before = Node
     [FunctionDef 2 ''foo'' (Node []) [Node []] [] None [],
      FunctionDef 5 ''caller'' (Node []) [Node [Node []]] [] None []]"

definition tree_caller_after :: node where
  "tree_caller_after = Node
     [FunctionDef 2 ''foo'' (Node []) [Node []] [] None [],
      FunctionDef 5 ''caller'' (Node [])
        [Assign 6 [Name 6 ''result'' Store] (Call 6 (Name 6 ''foo'' Load) [] []),
         Node [Name 7 ''result'' Load]]
        [] None []]"

definition tree_renamed_after :: node where
  "tree_renamed_after = Node
     [FunctionDef 2 ''bar'' (Node []) [Node []] [] None [],
      FunctionDef 5 ''caller'' (Node [])
        [Node [Call 6 (Name 6 ''bar'' Load) [] []]]
        [] None []]"

definition tree_process_after :: node where
  "tree_process_after = Node
     [FunctionDef 2 ''foo'' (Node []) [Node [Node [Node []]]] [] None [],
      FunctionDef 5 ''process''
        (Node [Node [Node [Name 5 ''List'' Load, Name 5 ''int'' Load, Node []]]])
        [Node [Call 6 (Name 6 ''sum'' Load) [Name 6 ''items'' Load] []]]
        [] (Some (Name 5 ''int'' Load)) []]"

definition ann_user_or_none :: node where
  "ann_user_or_none = Node [Name 2 ''User'' Load, Node [], Node []]"

definition ann_optional_user :: node where
  "ann_optional_user = Node [Name 2 ''Optional'' Load, Name 2 ''User'' Load, Node []]"

definition tree_user :: node where
  "tree_user = Node
     [FunctionDef 2 ''get_user'' (Node []) [Node [Call 3 (Name 3 ''User'' Load) [] []]]
        [] (Some (Name 2 ''User'' Load)) []]"

definition tree_user_or_none :: node where
  "tree_user_or_none = Node
     [FunctionDef 2 ''get_user'' (Node []) [Node [Node []]] [] (Some ann_user_or_none) []]"

definition tree_user_optional :: node where
  "tree_user_optional = Node
     [FunctionDef 2 ''get_user'' (Node []) [Node [Node []]] [] (Some ann_optional_user) []]"

definition tree_user_int :: node where
  "tree_user_int = Node
     [FunctionDef 2 ''get_user'' (Node []) [Node [Node []]] [] (Some (Name 2 ''int'' Load)) []]"

definition tree_user_plain :: node where
  "tree_user_plain = Node
     [FunctionDef 2 ''get_user'' (Node []) [Node [Call 3 (Name 3 ''User'' Load) [] []]]
        [] None []]"

definition example_parse :: "string \<Rightarrow> py_error + node" where
  "example_parse s =
     (if s = src_caller_before then Inr tree_caller_before
      else if s = src_caller_after then Inr tree_caller_after
      else if s = src_renamed_before then Inr tree_renamed_before
      else if s = src_renamed_after then Inr tree_renamed_after
      else if s = src_unused_before then Inr tree_unused_before
      else if s = src_unused_after then Inr tree_unused_after
      else if s = src_process_before then Inr tree_process_before
      else if s = src_process_after then Inr tree_process_after
      else if s = src_user then Inr tree_user
      else if s = src_user_or_none then Inr tree_user_or_none
      else if s = src_user_optional then Inr tree_user_optional
      else if s = src_user_int then Inr tree_user_int
      else if s = src_user_plain then Inr tree_user_plain
      else if s = src_broken then Inl SyntaxError
      else Inl (OtherException ''not an example text''))"

definition example_unparse :: "node \<Rightarrow> string" where
  "example_unparse n =
     (case n of
        Name lineno ident ctx \<Rightarrow> ident
      | Node children \<Rightarrow>
          (if n = ann_user_or_none then ''User | None''
           else if n = ann_optional_user then ''Optional[User]''
           else ''?'')
      | other \<Rightarrow> ''?'')"

definition example_ast :: ast_module where
  "example_ast = \<lparr>parse = example_parse, unparse = example_unparse\<rparr>"

text \<open>The structural changes of the tests.\<close>

definition change_rename_bar :: SemanticChange where
  "change_rename_bar =
     \<lparr>change_type = RENAME_FUNCTION, target = ''bar'', location = ''function:foo'',
      line_start = 1, line_end = 3,
      content_before = Some ''def foo():\<newline>    pass'',
      content_after = Some ''def bar():\<newline>    pass''\<rparr>"

definition change_modify_caller :: SemanticChange where
  "change_modify_caller =
     \<lparr>change_type = MODIFY_FUNCTION, target = ''caller'', location = ''function:caller'',
      line_start = 5, line_end = 7, content_before = None, content_after = None\<rparr>"

definition change_remove_List :: SemanticChange where
  "change_remove_List =
     \<lparr>change_type = REMOVE_IMPORT, target = ''List'', location = ''import:List'',
      line_start = 1, line_end = 1, content_before = None, content_after = None\<rparr>"

definition change_add_process :: SemanticChange where
  "change_add_process =
     \<lparr>change_type = ADD_FUNCTION, target = ''process'', location = ''function:process'',
      line_start = 3, line_end = 5, content_before = None, content_after = None\<rparr>"

definition change_modify_get_user :: SemanticChange where
  "change_modify_get_user =
     \<lparr>change_type = MODIFY_FUNCTION, target = ''get_user'',
      location = ''function:get_user'', line_start = 1, line_end = 3,
      content_before = None, content_after = None\<rparr>"

definition analysis :: "SemanticChange list \<Rightarrow> FileAnalysis" where
  "analysis chs = \<lparr>file_path = ''test.py'', changes = chs\<rparr>"

text \<open>The inputs of \<open>test_conflict_remove_import_still_used\<close>.\<close>

definition tas_import_test :: task_analyses where
  "tas_import_test =
     [(''task-a'', analysis [change_remove_List]), (''task-b'', analysis [change_add_process])]"

definition fc_import_test :: file_contents where
  "fc_import_test = [(''task-b'', src_process_before, src_process_after)]"

text \<open>The inputs of \<open>test_conflict_rename_and_call_old_name\<close>.\<close>

definition tas_rename_test :: task_analyses where
  "tas_rename_test =
     [(''task-a'', analysis [change_rename_bar]), (''task-b'', analysis [change_modify_caller])]"

definition fc_rename_test :: file_contents where
  "fc_rename_test = [(''task-b'', src_caller_before, src_caller_after)]"

text \<open>The inputs of \<open>test_no_conflict_same_task\<close>.\<close>

definition tas_same_task :: task_analyses where
  "tas_same_task = [(''task-a'', analysis [change_rename_bar])]"

definition fc_same_task :: file_contents where
  "fc_same_task = [(''task-a'', src_renamed_before, src_renamed_after)]"

text \<open>
  Two tasks, the first recording the rename under the name that the second still calls.
\<close>

definition change_rename_foo :: SemanticChange where
  "change_rename_foo = change_rename_bar\<lparr>target := ''foo''\<rparr>"

definition tas_rename_pair :: task_analyses where
  "tas_rename_pair =
     [(''task-a'', analysis [change_rename_foo]), (''task-b'', analysis [change_modify_caller])]"

definition fc_rename_pair :: file_contents where
  "fc_rename_pair =
     [(''task-a'', src_renamed_before, src_renamed_after),
      (''task-b'', src_caller_before, src_caller_after)]"

text \<open>The same two tasks, the rename recorded without its after snippet.\<close>

definition tas_rename_incomplete :: task_analyses where
  "tas_rename_incomplete =
     [(''task-a'', analysis [change_rename_foo\<lparr>content_after := None\<rparr>]),
      (''task-b'', analysis [change_modify_caller])]"

text \<open>A third task recording the removal that the first task also records.\<close>

definition tas_import_twice :: task_analyses where
  "tas_import_twice =
     [(''task-a'', analysis [change_remove_List]), (''task-b'', analysis [change_add_process]),
      (''task-c'', analysis [change_remove_List])]"

text \<open>The inputs of \<open>test_no_conflict_unused_import\<close>.\<close>

definition change_remove_os :: SemanticChange where
  "change_remove_os =
     \<lparr>change_type = REMOVE_IMPORT, target = ''os'', location = ''import:os'',
      line_start = 1, line_end = 1, content_before = None, content_after = None\<rparr>"

definition tas_unused_test :: task_analyses where
  "tas_unused_test = [(''task-a'', analysis [change_remove_os])]"

definition fc_unused_test :: file_contents where
  "fc_unused_test = [(''task-a'', src_unused_before, src_unused_after)]"

text \<open>The inputs of \<open>test_adding_none_to_return_type\<close>.\<close>

definition tas_type_test :: task_analyses where
  "tas_type_test = [(''task-a'', analysis [change_modify_get_user])]"

definition fc_type_test :: file_contents where
  "fc_type_test = [(''task-a'', src_user, src_user_or_none)]"

text \<open>The same task, the new annotation written \<open>Optional[User]\<close>.\<close>

definition fc_type_optional :: file_contents where
  "fc_type_optional = [(''task-a'', src_user, src_user_optional)]"

text \<open>The same task, the function not annotated before.\<close>

definition fc_type_unannotated :: file_contents where
  "fc_type_unannotated = [(''task-a'', src_user_plain, src_user_or_none)]"

text \<open>
  Two tasks changing the annotation of the same function: the first to
  \<open>User | None\<close>, the second to \<open>int\<close>.
\<close>

definition tas_type_pair :: task_analyses where
  "tas_type_pair =
     [(''task-a'', analysis [change_modify_get_user]),
      (''task-b'', analysis [change_modify_get_user])]"

definition fc_type_pair :: file_contents where
  "fc_type_pair =
     [(''task-a'', src_user, src_user_or_none), (''task-b'', src_user, src_user_int)]"

subsection \<open>Notions used to state the properties\<close>

text \<open>A rename change that lacks a non-empty before or after snippet.\<close>

definition incomplete_rename :: "SemanticChange \<Rightarrow> bool" where
  "incomplete_rename ch =
     (change_type ch = RENAME_FUNCTION
      \<and> \<not> (truthy (content_before ch) \<and> truthy (content_after ch)))"

text \<open>The task analyses with every such change removed.\<close>

definition without_incomplete_renames :: "task_analyses \<Rightarrow> task_analyses" where
  "without_incomplete_renames tas =
     map (\<lambda>(task_id, a).
            (task_id, a\<lparr>changes := filter (\<lambda>ch. \<not> incomplete_rename ch) (changes a)\<rparr>)) tas"

text \<open>
  The tasks that record the removal of an import of \<open>s\<close>, once per such change, in
  the order in which the detector meets them.
\<close>

definition removers :: "task_analyses \<Rightarrow> string \<Rightarrow> string list" where
  "removers tas s =
     concat (map (\<lambda>(task_id, a).
                    map (\<lambda>ch. task_id)
                      (filter (\<lambda>ch. change_type ch = REMOVE_IMPORT \<and> target ch = s)
                         (changes a))) tas)"

text \<open>
  The old and new recorded annotation of \<open>f\<close> when both tables record \<open>f\<close> and the
  two annotations differ.
\<close>

definition signature_change ::
  "SymbolTable \<Rightarrow> SymbolTable \<Rightarrow> string \<Rightarrow> (string option \<times> string option) option" where
  "signature_change before_symbols after_symbols f =
     (case dict_get (function_signatures before_symbols) f of
        None \<Rightarrow> None
      | Some old_type \<Rightarrow>
          (case dict_get (function_signatures after_symbols) f of
             None \<Rightarrow> None
           | Some new_type \<Rightarrow> if old_type \<noteq> new_type then Some (old_type, new_type) else None))"

text \<open>
  The entry that one item of \<open>file_contents\<close> writes for \<open>f\<close>: both texts give a
  table and the annotation of \<open>f\<close> changed.
\<close>

definition task_signature_change ::
  "ast_module \<Rightarrow> string \<Rightarrow> string \<Rightarrow> string \<times> string \<times> string
     \<Rightarrow> (string option \<times> string option \<times> string) option" where
  "task_signature_change py fp f item =
     (case item of (task_id, before_content, after_content) \<Rightarrow>
        (case build_symbol_table py fp before_content of
           None \<Rightarrow> None
         | Some b \<Rightarrow>
             (case build_symbol_table py fp after_content of
                None \<Rightarrow> None
              | Some a \<Rightarrow>
                  (case signature_change b a f of
                     None \<Rightarrow> None
                   | Some (old_type, new_type) \<Rightarrow> Some (old_type, new_type, task_id)))))"

section \<open>Properties\<close>

subsection \<open>Dictionaries and membership in the detectors' results\<close>

lemma dict_get_dict_set:
  "dict_get (dict_set d k v) k' = (if k' = k then Some v else dict_get d k')"
  by (induction d) (auto simp: dict_get_def)

lemma keys_dict_set: "set (map fst (dict_set d k v)) = insert k (set (map fst d))"
proof (induction d)
  case Nil
  then show ?case by simp
next
  case (Cons p d)
  obtain k' v' where p: "p = (k', v')" by (cases p)
  show ?case
  proof (cases "k' = k")
    case True
    with p show ?thesis by simp
  next
    case False
    have "set (map fst (dict_set (p # d) k v)) = insert k' (set (map fst (dict_set d k v)))"
      using p False by simp
    also have "\<dots> = insert k' (insert k (set (map fst d)))"
      by (simp only: Cons.IH)
    finally show ?thesis using p by auto
  qed
qed

lemma distinct_dict_set:
  "distinct (map fst d) \<Longrightarrow> distinct (map fst (dict_set d k v))"
proof (induction d)
  case Nil
  then show ?case by simp
next
  case (Cons p d)
  obtain k' v' where p: "p = (k', v')" by (cases p)
  show ?case
  proof (cases "k' = k")
    case True
    with Cons.prems p show ?thesis by simp
  next
    case False
    have "k' \<notin> set (map fst (dict_set d k v))"
      using Cons.prems p False by (simp only: keys_dict_set) simp
    with Cons p False show ?thesis by simp
  qed
qed

lemma dict_get_iff_mem:
  "distinct (map fst d) \<Longrightarrow> (k, v) \<in> set d \<longleftrightarrow> dict_get d k = Some v"
  by (simp add: dict_get_def)

lemma dict_get_mem: "dict_get d k = Some v \<Longrightarrow> (k, v) \<in> set d"
  by (simp add: dict_get_def map_of_SomeD)

lemma starts_with_append: "starts_with p (p @ s)"
  by (induction p) auto

lemma check_rename_mem:
  "c \<in> set (check_rename fp tid tbl (old, new, rid)) \<longleftrightarrow>
     rid \<noteq> tid \<and>
     (\<exists>ls. dict_get (function_calls tbl) old = Some ls \<and>
        c = rename_conflict fp old new rid tid ls)"
  by (cases "dict_get (function_calls tbl) old") (auto simp: check_rename_def)

lemma rename_conflicts_of_task_mem:
  "c \<in> set (rename_conflicts_of_task py fp rn (tid, bc, ac)) \<longleftrightarrow>
     (\<exists>tbl old new rid ls.
        build_symbol_table py fp ac = Some tbl \<and> (old, new, rid) \<in> set rn \<and> rid \<noteq> tid \<and>
        dict_get (function_calls tbl) old = Some ls \<and>
        c = rename_conflict fp old new rid tid ls)"
proof (cases "build_symbol_table py fp ac")
  case None
  then show ?thesis by (simp add: rename_conflicts_of_task_def)
next
  case (Some tbl)
  have "c \<in> set (rename_conflicts_of_task py fp rn (tid, bc, ac)) \<longleftrightarrow>
          (\<exists>e \<in> set rn. c \<in> set (check_rename fp tid tbl e))"
    using Some by (simp add: rename_conflicts_of_task_def)
  also have "\<dots> \<longleftrightarrow> (\<exists>old new rid. (old, new, rid) \<in> set rn \<and>
          c \<in> set (check_rename fp tid tbl (old, new, rid)))"
    by (metis prod_cases3)
  finally show ?thesis using Some by (simp add: check_rename_mem; blast)
qed

lemma rename_mem:
  "c \<in> set (detect_function_rename_conflicts py tas fc) \<longleftrightarrow>
     tas \<noteq> [] \<and>
     (\<exists>tid bc ac tbl old new rid ls.
        (tid, bc, ac) \<in> set fc \<and>
        build_symbol_table py (first_file_path tas) ac = Some tbl \<and>
        (old, new, rid) \<in> set (find_renames tas) \<and> rid \<noteq> tid \<and>
        dict_get (function_calls tbl) old = Some ls \<and>
        c = rename_conflict (first_file_path tas) old new rid tid ls)"
proof (cases "tas = []")
  case True
  then show ?thesis by (simp add: detect_function_rename_conflicts_def)
next
  case False
  have "c \<in> set (detect_function_rename_conflicts py tas fc) \<longleftrightarrow>
          (\<exists>item \<in> set fc.
             c \<in> set (rename_conflicts_of_task py (first_file_path tas) (find_renames tas) item))"
    using False by (simp add: detect_function_rename_conflicts_def Let_def)
  also have "\<dots> \<longleftrightarrow> (\<exists>tid bc ac. (tid, bc, ac) \<in> set fc \<and>
             c \<in> set (rename_conflicts_of_task py (first_file_path tas) (find_renames tas)
                        (tid, bc, ac)))"
    by (metis prod_cases3)
  finally show ?thesis using False by (simp add: rename_conflicts_of_task_mem; blast)
qed

lemma check_removal_mem:
  "c \<in> set (check_removal fp tid tbl (symb, rid)) \<longleftrightarrow>
     rid \<noteq> tid \<and>
     (\<exists>ls. dict_get (usages tbl) symb = Some ls \<and> \<not> dict_has (imports' tbl) symb \<and>
        c = import_conflict fp symb rid tid ls)"
  by (cases "dict_get (usages tbl) symb") (auto simp: check_removal_def)

lemma removal_conflicts_of_task_mem:
  "c \<in> set (removal_conflicts_of_task py fp rm (tid, bc, ac)) \<longleftrightarrow>
     (\<exists>tbl symb rid ls.
        build_symbol_table py fp ac = Some tbl \<and> (symb, rid) \<in> set rm \<and> rid \<noteq> tid \<and>
        dict_get (usages tbl) symb = Some ls \<and> \<not> dict_has (imports' tbl) symb \<and>
        c = import_conflict fp symb rid tid ls)"
proof (cases "build_symbol_table py fp ac")
  case None
  then show ?thesis by (simp add: removal_conflicts_of_task_def)
next
  case (Some tbl)
  have "c \<in> set (removal_conflicts_of_task py fp rm (tid, bc, ac)) \<longleftrightarrow>
          (\<exists>e \<in> set rm. c \<in> set (check_removal fp tid tbl e))"
    using Some by (simp add: removal_conflicts_of_task_def)
  also have "\<dots> \<longleftrightarrow> (\<exists>symb rid. (symb, rid) \<in> set rm \<and>
          c \<in> set (check_removal fp tid tbl (symb, rid)))"
    by auto
  finally show ?thesis using Some by (simp add: check_removal_mem; blast)
qed

lemma removal_mem:
  "c \<in> set (detect_import_removal_conflicts py tas fc) \<longleftrightarrow>
     tas \<noteq> [] \<and>
     (\<exists>tid bc ac tbl symb rid ls.
        (tid, bc, ac) \<in> set fc \<and>
        build_symbol_table py (first_file_path tas) ac = Some tbl \<and>
        (symb, rid) \<in> set (find_removals tas) \<and> rid \<noteq> tid \<and>
        dict_get (usages tbl) symb = Some ls \<and> \<not> dict_has (imports' tbl) symb \<and>
        c = import_conflict (first_file_path tas) symb rid tid ls)"
proof (cases "tas = []")
  case True
  then show ?thesis by (simp add: detect_import_removal_conflicts_def)
next
  case False
  have "c \<in> set (detect_import_removal_conflicts py tas fc) \<longleftrightarrow>
          (\<exists>item \<in> set fc.
             c \<in> set (removal_conflicts_of_task py (first_file_path tas) (find_removals tas) item))"
    using False by (simp add: detect_import_removal_conflicts_def Let_def)
  also have "\<dots> \<longleftrightarrow> (\<exists>tid bc ac. (tid, bc, ac) \<in> set fc \<and>
             c \<in> set (removal_conflicts_of_task py (first_file_path tas) (find_removals tas)
                        (tid, bc, ac)))"
    by (metis prod_cases3)
  finally show ?thesis using False by (simp add: removal_conflicts_of_task_mem; blast)
qed

lemma check_type_change_mem:
  "c \<in> set (check_type_change fp (f, old, new, tid)) \<longleftrightarrow>
     (\<exists>ot nt. old = Some ot \<and> new = Some nt \<and> ot \<noteq> [] \<and> nt \<noteq> [] \<and>
        str_contains ''None'' nt \<and> \<not> str_contains ''None'' ot \<and>
        c = type_conflict fp f ot nt tid)"
  by (cases old; cases new) (auto simp: check_type_change_def)

lemma type_mem:
  "c \<in> set (detect_type_change_conflicts py tas fc) \<longleftrightarrow>
     tas \<noteq> [] \<and>
     (\<exists>f ot nt tid.
        (f, Some ot, Some nt, tid) \<in> set (find_type_changes py (first_file_path tas) fc) \<and>
        ot \<noteq> [] \<and> nt \<noteq> [] \<and> str_contains ''None'' nt \<and> \<not> str_contains ''None'' ot \<and>
        c = type_conflict (first_file_path tas) f ot nt tid)"
proof (cases "tas = []")
  case True
  then show ?thesis by (simp add: detect_type_change_conflicts_def)
next
  case False
  have "c \<in> set (detect_type_change_conflicts py tas fc) \<longleftrightarrow>
          (\<exists>e \<in> set (find_type_changes py (first_file_path tas) fc).
             c \<in> set (check_type_change (first_file_path tas) e))"
    using False by (simp add: detect_type_change_conflicts_def Let_def)
  also have "\<dots> \<longleftrightarrow> (\<exists>f old new tid.
             (f, old, new, tid) \<in> set (find_type_changes py (first_file_path tas) fc) \<and>
             c \<in> set (check_type_change (first_file_path tas) (f, old, new, tid)))"
    by (metis prod_cases4)
  finally show ?thesis using False by (simp add: check_type_change_mem; blast)
qed

lemma to_region_reason:
  "starts_with (''[Semantic: '' @ conflict_type c @ ''] '') (reason (to_region c))"
proof -
  have "\<exists>rest. full_reason c = (''[Semantic: '' @ conflict_type c @ ''] '') @ rest"
    by (simp add: full_reason_def Let_def)
  then obtain rest where "full_reason c = (''[Semantic: '' @ conflict_type c @ ''] '') @ rest"
    by blast
  then show ?thesis
    by (simp only: to_region_def ConflictRegion.simps starts_with_append)
qed

lemma detector_kinds:
  "c \<in> set (detect_function_rename_conflicts py tas fc) \<Longrightarrow> conflict_type c = ''function_rename''"
  "c \<in> set (detect_import_removal_conflicts py tas fc) \<Longrightarrow> conflict_type c = ''import_removal''"
  "c \<in> set (detect_type_change_conflicts py tas fc) \<Longrightarrow> conflict_type c = ''type_change''"
  by (auto simp: rename_mem removal_mem type_mem rename_conflict_def import_conflict_def
      type_conflict_def)



subsection \<open>The rename map\<close>

lemma set_dict_set: "set (dict_set d k v) \<subseteq> insert (k, v) (set d)"
  by (induction d) (auto split: if_splits)

lemma record_rename_mem:
  "e \<in> set (fold (record_rename tid) chs rn) \<Longrightarrow>
     e \<in> set rn \<or>
     (\<exists>ch \<in> set chs. change_type ch = RENAME_FUNCTION \<and> \<not> incomplete_rename ch
        \<and> e = (target ch, target ch, tid))"
proof (induction chs arbitrary: rn)
  case Nil
  then show ?case by simp
next
  case (Cons ch chs)
  from Cons.prems have "e \<in> set (fold (record_rename tid) chs (record_rename tid ch rn))"
    by simp
  from Cons.IH [OF this] show ?case
  proof
    assume "e \<in> set (record_rename tid ch rn)"
    then show ?thesis
      using set_dict_set [of rn "target ch" "(target ch, tid)"]
      by (auto simp: record_rename_def incomplete_rename_def Let_def split: if_splits)
  next
    assume "\<exists>ch \<in> set chs. change_type ch = RENAME_FUNCTION \<and> \<not> incomplete_rename ch
        \<and> e = (target ch, target ch, tid)"
    then show ?thesis by auto
  qed
qed

lemma fold_renames_mem:
  "e \<in> set (fold (\<lambda>(task_id, analysis) rn. fold (record_rename task_id) (changes analysis) rn)
              tas rn0) \<Longrightarrow>
     e \<in> set rn0 \<or>
     (\<exists>tid a ch. (tid, a) \<in> set tas \<and> ch \<in> set (changes a)
        \<and> change_type ch = RENAME_FUNCTION \<and> \<not> incomplete_rename ch
        \<and> e = (target ch, target ch, tid))"
proof (induction tas arbitrary: rn0)
  case Nil
  then show ?case by simp
next
  case (Cons p tas)
  obtain tid a where p: "p = (tid, a)" by (cases p)
  from Cons.prems p
  have "e \<in> set (fold (\<lambda>(task_id, analysis) rn. fold (record_rename task_id) (changes analysis) rn)
              tas (fold (record_rename tid) (changes a) rn0))"
    by simp
  from Cons.IH [OF this] show ?case
  proof
    assume "e \<in> set (fold (record_rename tid) (changes a) rn0)"
    from record_rename_mem [OF this] show ?thesis
      using p by auto
  next
    assume "\<exists>tid a ch. (tid, a) \<in> set tas \<and> ch \<in> set (changes a)
        \<and> change_type ch = RENAME_FUNCTION \<and> \<not> incomplete_rename ch
        \<and> e = (target ch, target ch, tid)"
    then show ?thesis by auto
  qed
qed

lemma find_renames_mem:
  "(old, new, rid) \<in> set (find_renames tas) \<Longrightarrow>
     new = old \<and>
     (\<exists>a ch. (rid, a) \<in> set tas \<and> ch \<in> set (changes a)
        \<and> change_type ch = RENAME_FUNCTION \<and> \<not> incomplete_rename ch \<and> target ch = old)"
  using fold_renames_mem [of "(old, new, rid)" tas "[]"]
  by (auto simp: find_renames_def)

lemma fold_filter_skip:
  "(\<And>x. x \<in> set xs \<Longrightarrow> \<not> P x \<Longrightarrow> f x = id) \<Longrightarrow> fold f (filter P xs) = fold f xs"
  by (induction xs) auto

lemma record_rename_incomplete: "incomplete_rename ch \<Longrightarrow> record_rename tid ch = id"
  by (auto simp: record_rename_def incomplete_rename_def fun_eq_iff)

lemma fold_renames_without:
  "fold (\<lambda>(task_id, analysis) rn. fold (record_rename task_id) (changes analysis) rn)
     (without_incomplete_renames tas) rn0
   = fold (\<lambda>(task_id, analysis) rn. fold (record_rename task_id) (changes analysis) rn) tas rn0"
proof (induction tas arbitrary: rn0)
  case Nil
  then show ?case by (simp add: without_incomplete_renames_def)
next
  case (Cons p tas)
  obtain tid a where p: "p = (tid, a)" by (cases p)
  have step: "fold (record_rename tid) (filter (\<lambda>ch. \<not> incomplete_rename ch) (changes a)) rn0
      = fold (record_rename tid) (changes a) rn0"
    using fold_filter_skip [of "changes a" "\<lambda>ch. \<not> incomplete_rename ch" "record_rename tid"]
    by (simp add: record_rename_incomplete)
  have "without_incomplete_renames (p # tas)
      = (tid, a\<lparr>changes := filter (\<lambda>ch. \<not> incomplete_rename ch) (changes a)\<rparr>)
        # without_incomplete_renames tas"
    by (simp add: without_incomplete_renames_def p)
  then show ?case
    using Cons.IH step p by simp
qed

lemma find_renames_without:
  "find_renames (without_incomplete_renames tas) = find_renames tas"
  by (simp add: find_renames_def fold_renames_without)

lemma without_nil: "without_incomplete_renames tas = [] \<longleftrightarrow> tas = []"
  by (simp add: without_incomplete_renames_def)

lemma first_file_path_without:
  "tas \<noteq> [] \<Longrightarrow> first_file_path (without_incomplete_renames tas) = first_file_path tas"
  by (cases tas) (auto simp: first_file_path_def without_incomplete_renames_def split: prod.splits)

subsection \<open>The removal map\<close>

lemma dict_unique:
  "distinct (map fst d) \<Longrightarrow> (k, v) \<in> set d \<Longrightarrow> (k, v') \<in> set d \<Longrightarrow> v = v'"
  by (metis eq_key_imp_eq_value)

lemma record_removal_step:
  "dict_get (record_removal tid ch rm) s =
     (if change_type ch = REMOVE_IMPORT \<and> target ch = s then Some tid else dict_get rm s)"
  by (simp add: record_removal_def dict_get_dict_set)

lemma record_removal_get:
  "dict_get (fold (record_removal tid) chs rm) s =
     (if \<exists>ch \<in> set chs. change_type ch = REMOVE_IMPORT \<and> target ch = s then Some tid
      else dict_get rm s)"
proof (induction chs arbitrary: rm)
  case Nil
  then show ?case by simp
next
  case (Cons ch chs)
  show ?case
    by (auto simp: Cons.IH record_removal_step)
qed

lemma record_removal_distinct:
  "distinct (map fst rm) \<Longrightarrow> distinct (map fst (fold (record_removal tid) chs rm))"
  by (induction chs arbitrary: rm) (simp_all add: record_removal_def distinct_dict_set)

lemma removers_Cons:
  "removers ((tid, a) # tas) s =
     map (\<lambda>ch. tid) (filter (\<lambda>ch. change_type ch = REMOVE_IMPORT \<and> target ch = s) (changes a))
     @ removers tas s"
  by (simp add: removers_def)

lemma fold_removals_get:
  "dict_get (fold (\<lambda>(task_id, analysis) rm. fold (record_removal task_id) (changes analysis) rm)
       tas rm0) s =
     (if removers tas s = [] then dict_get rm0 s else Some (last (removers tas s)))"
proof (induction tas arbitrary: rm0)
  case Nil
  then show ?case by (simp add: removers_def)
next
  case (Cons p tas)
  obtain tid a where p: "p = (tid, a)" by (cases p)
  let ?own = "filter (\<lambda>ch. change_type ch = REMOVE_IMPORT \<and> target ch = s) (changes a)"
  have own: "(\<exists>ch \<in> set (changes a). change_type ch = REMOVE_IMPORT \<and> target ch = s)
      \<longleftrightarrow> ?own \<noteq> []"
    by (auto simp: filter_empty_conv)
  have last_own: "?own \<noteq> [] \<Longrightarrow> last (map (\<lambda>ch. tid) ?own) = tid"
    by (simp add: last_map)
  show ?case
  proof (cases "removers tas s = []")
    case True
    then show ?thesis
      using Cons.IH [of "fold (record_removal tid) (changes a) rm0"] own last_own
      by (simp add: p removers_Cons record_removal_get)
  next
    case False
    then show ?thesis
      using Cons.IH [of "fold (record_removal tid) (changes a) rm0"]
      by (simp add: p removers_Cons)
  qed
qed

lemma find_removals_get:
  "dict_get (find_removals tas) s =
     (if removers tas s = [] then None else Some (last (removers tas s)))"
  by (simp only: find_removals_def fold_removals_get) (simp add: dict_get_def)

lemma fold_removals_distinct:
  "distinct (map fst rm0) \<Longrightarrow>
   distinct (map fst
     (fold (\<lambda>(task_id, analysis) rm. fold (record_removal task_id) (changes analysis) rm)
        tas rm0))"
  by (induction tas arbitrary: rm0) (auto simp: record_removal_distinct)

lemma find_removals_distinct: "distinct (map fst (find_removals tas))"
  by (simp add: find_removals_def fold_removals_distinct)

lemma find_removals_mem:
  "(s, rid) \<in> set (find_removals tas) \<longleftrightarrow> removers tas s \<noteq> [] \<and> last (removers tas s) = rid"
  using dict_get_iff_mem [OF find_removals_distinct, of s rid tas]
  by (auto simp: find_removals_get)

lemma removal_conflict_iff_aux:
  assumes tas: "tas \<noteq> []"
    and fc: "distinct (map fst fc)"
    and item: "(B, bc, ac) \<in> set fc"
    and tbl: "build_symbol_table py (first_file_path tas) ac = Some tbl"
    and rem: "removers tas s \<noteq> []"
    and lst: "last (removers tas s) = A"
    and neq: "A \<noteq> B"
  shows "(\<exists>c \<in> set (detect_import_removal_conflicts py tas fc).
             conflict_type c = ''import_removal'' \<and> sc_severity c = CRITICAL \<and>
             sc_tasks_involved c = [A, B] \<and> sc_location c = ''import:'' @ s)
          \<longleftrightarrow> dict_has (usages tbl) s \<and> \<not> dict_has (imports' tbl) s"
proof
  assume "\<exists>c \<in> set (detect_import_removal_conflicts py tas fc).
             conflict_type c = ''import_removal'' \<and> sc_severity c = CRITICAL \<and>
             sc_tasks_involved c = [A, B] \<and> sc_location c = ''import:'' @ s"
  then obtain c where c: "c \<in> set (detect_import_removal_conflicts py tas fc)"
    and tasks: "sc_tasks_involved c = [A, B]" and loc: "sc_location c = ''import:'' @ s"
    by blast
  from c obtain tid bc' ac' tbl' symb rid ls where
    item': "(tid, bc', ac') \<in> set fc" and
    tbl': "build_symbol_table py (first_file_path tas) ac' = Some tbl'" and
    use: "dict_get (usages tbl') symb = Some ls" and imp: "\<not> dict_has (imports' tbl') symb" and
    ceq: "c = import_conflict (first_file_path tas) symb rid tid ls"
    unfolding removal_mem by blast
  from tasks loc ceq have "tid = B" "symb = s"
    by (simp_all add: import_conflict_def)
  with item' item fc have "(bc', ac') = (bc, ac)"
    using dict_unique by fastforce
  with tbl tbl' have "tbl' = tbl" by simp
  with use imp \<open>symb = s\<close> show "dict_has (usages tbl) s \<and> \<not> dict_has (imports' tbl) s"
    by (simp add: dict_has_def)
next
  assume r: "dict_has (usages tbl) s \<and> \<not> dict_has (imports' tbl) s"
  then obtain ls where ls: "dict_get (usages tbl) s = Some ls"
    by (auto simp: dict_has_def)
  have "(s, A) \<in> set (find_removals tas)"
    using rem lst by (simp add: find_removals_mem)
  with tas item tbl neq ls r
  have "import_conflict (first_file_path tas) s A B ls
      \<in> set (detect_import_removal_conflicts py tas fc)"
    unfolding removal_mem by blast
  moreover have "conflict_type (import_conflict (first_file_path tas) s A B ls) = ''import_removal''"
    "sc_severity (import_conflict (first_file_path tas) s A B ls) = CRITICAL"
    "sc_tasks_involved (import_conflict (first_file_path tas) s A B ls) = [A, B]"
    "sc_location (import_conflict (first_file_path tas) s A B ls) = ''import:'' @ s"
    by (simp_all add: import_conflict_def)
  ultimately show "\<exists>c \<in> set (detect_import_removal_conflicts py tas fc).
             conflict_type c = ''import_removal'' \<and> sc_severity c = CRITICAL \<and>
             sc_tasks_involved c = [A, B] \<and> sc_location c = ''import:'' @ s"
    by blast
qed

lemma removal_unused_aux:
  assumes rem: "removers tas s \<noteq> []"
    and lst: "last (removers tas s) = A"
    and unused: "\<forall>i \<in> set fc. fst i \<noteq> A \<longrightarrow>
      (\<forall>t. build_symbol_table py (first_file_path tas) (snd (snd i)) = Some t
         \<longrightarrow> \<not> dict_has (usages t) s)"
  shows "\<not> (\<exists>c \<in> set (detect_import_removal_conflicts py tas fc).
            sc_location c = ''import:'' @ s)"
proof
  assume "\<exists>c \<in> set (detect_import_removal_conflicts py tas fc).
                 sc_location c = ''import:'' @ s"
  then obtain c where c: "c \<in> set (detect_import_removal_conflicts py tas fc)"
    and loc: "sc_location c = ''import:'' @ s"
    by blast
  from c obtain tid bc' ac' tbl' symb rid ls where
    item': "(tid, bc', ac') \<in> set fc" and
    tbl': "build_symbol_table py (first_file_path tas) ac' = Some tbl'" and
    entry: "(symb, rid) \<in> set (find_removals tas)" and neq: "rid \<noteq> tid" and
    use: "dict_get (usages tbl') symb = Some ls" and
    ceq: "c = import_conflict (first_file_path tas) symb rid tid ls"
    unfolding removal_mem by blast
  from loc ceq have same: "symb = s"
    by (simp add: import_conflict_def)
  with entry lst have "rid = A"
    by (simp add: find_removals_mem)
  with neq have other: "tid \<noteq> A" by simp
  from use same have "dict_has (usages tbl') s"
    by (simp add: dict_has_def)
  with unused item' tbl' other show False by force
qed

subsection \<open>The map of type changes\<close>

lemma dict_get_keys: "dict_get d k \<noteq> None \<longleftrightarrow> k \<in> set (map fst d)"
  by (simp add: dict_get_def map_of_eq_None_iff)

lemma record_type_change_step:
  "dict_get (record_type_change tid b a g tc) f =
     (if g = f then
        (case signature_change b a f of
           None \<Rightarrow> dict_get tc f
         | Some (old, new) \<Rightarrow> Some (old, new, tid))
      else dict_get tc f)"
  by (auto simp: record_type_change_def signature_change_def dict_get_dict_set
      split: option.splits)

lemma record_type_change_fold:
  "dict_get (fold (record_type_change tid b a) ks tc) f =
     (if f \<in> set ks then
        (case signature_change b a f of
           None \<Rightarrow> dict_get tc f
         | Some (old, new) \<Rightarrow> Some (old, new, tid))
      else dict_get tc f)"
proof (induction ks arbitrary: tc)
  case Nil
  then show ?case by simp
next
  case (Cons g ks)
  show ?case
    by (auto simp: Cons.IH record_type_change_step split: option.splits)
qed

lemma signature_change_key:
  "signature_change b a f = Some p \<Longrightarrow> f \<in> set (map fst (function_signatures a))"
  using dict_get_keys [of "function_signatures a" f]
  by (auto simp: signature_change_def split: option.splits if_splits)

lemma type_changes_of_task_step:
  "dict_get (type_changes_of_task py fp item tc) f =
     (case task_signature_change py fp f item of None \<Rightarrow> dict_get tc f | Some e \<Rightarrow> Some e)"
proof -
  obtain tid bc ac where item: "item = (tid, bc, ac)" by (cases item)
  show ?thesis
  proof (cases "build_symbol_table py fp bc")
    case None
    then show ?thesis
      by (simp add: item type_changes_of_task_def task_signature_change_def)
  next
    case b: (Some b)
    show ?thesis
    proof (cases "build_symbol_table py fp ac")
      case None
      then show ?thesis
        using b by (simp add: item type_changes_of_task_def task_signature_change_def)
    next
      case a: (Some a)
      show ?thesis
      proof (cases "signature_change b a f")
        case None
        then show ?thesis
          using a b
          by (simp add: item type_changes_of_task_def task_signature_change_def
              record_type_change_fold)
      next
        case (Some p)
        obtain old new where p: "p = (old, new)" by (cases p)
        from signature_change_key [OF Some]
        have "f \<in> set (map fst (function_signatures a))" .
        then show ?thesis
          using a b Some p
          by (simp add: item type_changes_of_task_def task_signature_change_def
              record_type_change_fold)
      qed
    qed
  qed
qed

lemma find_type_changes_fold:
  "dict_get (fold (type_changes_of_task py fp) fc tc) f =
     (case List.map_filter (task_signature_change py fp f) fc of
        [] \<Rightarrow> dict_get tc f
      | e # es \<Rightarrow> Some (last (e # es)))"
proof (induction fc arbitrary: tc)
  case Nil
  then show ?case by simp
next
  case (Cons item fc)
  show ?case
    by (cases "task_signature_change py fp f item";
        cases "List.map_filter (task_signature_change py fp f) fc")
      (simp_all add: Cons.IH type_changes_of_task_step)
qed

lemma find_type_changes_get:
  "dict_get (find_type_changes py fp fc) f =
     (case List.map_filter (task_signature_change py fp f) fc of
        [] \<Rightarrow> None
      | e # es \<Rightarrow> Some (last (e # es)))"
  by (simp only: find_type_changes_def find_type_changes_fold)
    (simp add: dict_get_def split: list.splits)

lemma record_type_change_distinct:
  "distinct (map fst tc) \<Longrightarrow> distinct (map fst (fold (record_type_change tid b a) ks tc))"
  by (induction ks arbitrary: tc)
    (simp_all add: record_type_change_def distinct_dict_set split: option.splits)

lemma type_changes_of_task_distinct:
  "distinct (map fst tc) \<Longrightarrow> distinct (map fst (type_changes_of_task py fp item tc))"
  by (cases item)
    (simp add: type_changes_of_task_def record_type_change_distinct split: option.splits)

lemma find_type_changes_distinct: "distinct (map fst (find_type_changes py fp fc))"
proof -
  have "distinct (map fst tc) \<Longrightarrow> distinct (map fst (fold (type_changes_of_task py fp) fc tc))"
    for tc
    by (induction fc arbitrary: tc) (simp_all add: type_changes_of_task_distinct)
  then show ?thesis by (simp add: find_type_changes_def)
qed

lemma find_type_changes_mem:
  "(f, e) \<in> set (find_type_changes py fp fc) \<longleftrightarrow>
     List.map_filter (task_signature_change py fp f) fc \<noteq> [] \<and>
     last (List.map_filter (task_signature_change py fp f) fc) = e"
  using dict_get_iff_mem [OF find_type_changes_distinct, of f e py fp fc]
  by (auto simp: find_type_changes_get split: list.splits)

lemma map_filter_mem:
  "e \<in> set (List.map_filter g xs) \<longleftrightarrow> (\<exists>x \<in> set xs. g x = Some e)"
  by (induction xs) (auto split: option.splits)

lemma task_signature_change_task:
  "task_signature_change py fp f item = Some (old, new, tid) \<Longrightarrow> tid = fst item"
  by (cases item) (auto simp: task_signature_change_def split: option.splits)

lemma find_type_changes_origin:
  "(f, e) \<in> set (find_type_changes py fp fc) \<Longrightarrow>
     \<exists>item \<in> set fc. task_signature_change py fp f item = Some e"
proof -
  assume "(f, e) \<in> set (find_type_changes py fp fc)"
  then have ne: "List.map_filter (task_signature_change py fp f) fc \<noteq> []"
    and l: "last (List.map_filter (task_signature_change py fp f) fc) = e"
    by (simp_all add: find_type_changes_mem)
  from ne have "last (List.map_filter (task_signature_change py fp f) fc)
      \<in> set (List.map_filter (task_signature_change py fp f) fc)"
    by (rule last_in_set)
  with l show ?thesis by (simp add: map_filter_mem)
qed

lemma map_filter_append:
  "List.map_filter g (xs @ ys) = List.map_filter g xs @ List.map_filter g ys"
  by (simp add: List.map_filter_def)

lemma map_filter_none: "\<forall>x \<in> set xs. g x = None \<Longrightarrow> List.map_filter g xs = []"
  by (induction xs) simp_all

lemma task_signature_change_own:
  "build_symbol_table py fp bc = Some b \<Longrightarrow> build_symbol_table py fp ac = Some a \<Longrightarrow>
   dict_get (function_signatures b) f = Some old \<Longrightarrow>
   dict_get (function_signatures a) f = Some new \<Longrightarrow>
   task_signature_change py fp f (T, bc, ac)
     = (if old \<noteq> new then Some (old, new, T) else None)"
  by (simp add: task_signature_change_def signature_change_def)

lemma type_conflict_origin:
  assumes fc: "distinct (map fst fc)"
    and item: "(T, bc, ac) \<in> set fc"
    and c: "c \<in> set (detect_type_change_conflicts py tas fc)"
    and loc: "sc_location c = ''function:'' @ f"
    and tasks: "sc_tasks_involved c = [T]"
  shows "\<exists>ot nt. task_signature_change py (first_file_path tas) f (T, bc, ac)
             = Some (Some ot, Some nt, T)
           \<and> str_contains ''None'' nt \<and> \<not> str_contains ''None'' ot"
proof -
  from c obtain f' ot nt tid where
    entry: "(f', Some ot, Some nt, tid) \<in> set (find_type_changes py (first_file_path tas) fc)"
    and marker: "str_contains ''None'' nt" "\<not> str_contains ''None'' ot"
    and ceq: "c = type_conflict (first_file_path tas) f' ot nt tid"
    unfolding type_mem by blast
  from loc tasks ceq have same: "f' = f" "tid = T"
    by (simp_all add: type_conflict_def)
  from find_type_changes_origin [OF entry] obtain it where
    it: "it \<in> set fc"
    and ch: "task_signature_change py (first_file_path tas) f it = Some (Some ot, Some nt, T)"
    using same by blast
  from task_signature_change_task [OF ch] have "fst it = T" by simp
  then obtain rest where rest: "it = (T, rest)" by (cases it) auto
  have "rest = (bc, ac)"
    using dict_unique [OF fc _ item, of rest] it rest by simp
  with rest have "it = (T, bc, ac)" by simp
  with ch have "task_signature_change py (first_file_path tas) f (T, bc, ac)
      = Some (Some ot, Some nt, T)"
    by simp
  with marker show ?thesis by blast
qed

subsection \<open>The claims\<close>

text \<open>
  C7. Calling the aggregate detector with an empty task-changes mapping returns an
  empty conflict list, for any file-contents mapping.
\<close>

theorem empty_tasks_no_conflicts: "detect_semantic_conflicts py [] fc = []"
  by (simp add: detect_semantic_conflicts_def)



text \<open>
  C6. Every conflict region that the aggregate detector returns cannot be merged
  automatically, requires a human, has a reason that starts with \<open>[Semantic: \<close> followed
  by the conflict kind, and lists the change kind mapped from that conflict kind once per
  involved task.
\<close>

theorem region_invariants:
  "\<forall>r \<in> set (detect_semantic_conflicts py tas fc).
     can_auto_merge r = False \<and> merge_strategy r = HUMAN_REQUIRED \<and>
     (\<exists>kind \<in> {''function_rename'', ''import_removal'', ''type_change''}.
        starts_with (''[Semantic: '' @ kind @ ''] '') (reason r) \<and>
        change_types r = replicate (length (tasks_involved r)) (change_type_map kind)) \<and>
     length (change_types r) = length (tasks_involved r)"
proof
  fix r
  assume "r \<in> set (detect_semantic_conflicts py tas fc)"
  then obtain c where r: "r = to_region c"
    and c: "c \<in> set (detect_function_rename_conflicts py tas fc)
            \<or> c \<in> set (detect_import_removal_conflicts py tas fc)
            \<or> c \<in> set (detect_type_change_conflicts py tas fc)"
    by (auto simp: detect_semantic_conflicts_def detect_variable_rename_conflicts_def Let_def
        split: if_splits)
  from c have kind: "conflict_type c \<in> {''function_rename'', ''import_removal'', ''type_change''}"
    using detector_kinds [of c py tas fc] by blast
  have flags: "can_auto_merge r = False" "merge_strategy r = HUMAN_REQUIRED"
    "change_types r
       = replicate (length (tasks_involved r)) (change_type_map (conflict_type c))"
    by (simp_all add: r to_region_def)
  have pre: "starts_with (''[Semantic: '' @ conflict_type c @ ''] '') (reason r)"
    unfolding r by (rule to_region_reason)
  have len: "length (change_types r) = length (tasks_involved r)"
    by (simp add: flags(3))
  from kind pre flags len
  show "can_auto_merge r = False \<and> merge_strategy r = HUMAN_REQUIRED \<and>
     (\<exists>kind \<in> {''function_rename'', ''import_removal'', ''type_change''}.
        starts_with (''[Semantic: '' @ kind @ ''] '') (reason r) \<and>
        change_types r = replicate (length (tasks_involved r)) (change_type_map kind)) \<and>
     length (change_types r) = length (tasks_involved r)"
    by blast
qed

theorem region_invariants_witness:
  "detect_semantic_conflicts example_ast tas_import_test fc_import_test \<noteq> []
   \<and> tasks_involved (hd (detect_semantic_conflicts example_ast tas_import_test fc_import_test))
       = [''task-a'', ''task-b'']
   \<and> can_auto_merge (hd (detect_semantic_conflicts example_ast tas_import_test fc_import_test))
       = False
   \<and> merge_strategy (hd (detect_semantic_conflicts example_ast tas_import_test fc_import_test))
       = HUMAN_REQUIRED
   \<and> length (change_types
         (hd (detect_semantic_conflicts example_ast tas_import_test fc_import_test))) = 2"
proof -
  let ?rs = "detect_semantic_conflicts example_ast tas_import_test fc_import_test"
  have len: "length ?rs = 1"
    by code_simp
  then have ne: "?rs \<noteq> []"
    by auto
  then have "hd ?rs \<in> set ?rs"
    by simp
  then have inv: "can_auto_merge (hd ?rs) = False \<and> merge_strategy (hd ?rs) = HUMAN_REQUIRED
      \<and> length (change_types (hd ?rs)) = length (tasks_involved (hd ?rs))"
    using region_invariants [of example_ast tas_import_test fc_import_test] by blast
  have tasks: "tasks_involved (hd ?rs) = [''task-a'', ''task-b'']"
    by code_simp
  from ne inv tasks show ?thesis
    by simp
qed

text \<open>
  C2. The rename detector never pairs a task with itself: every conflict it emits names
  a task that recorded a rename and a different task whose after-text was checked, so a
  task that is alone in the inputs, having renamed a function and updated its own call
  sites, yields no rename conflict.
\<close>

theorem rename_skips_own_task:
  "(\<forall>c \<in> set (detect_function_rename_conflicts py tas fc).
      \<exists>r t. sc_tasks_involved c = [r, t] \<and> r \<noteq> t \<and> t \<in> fst ` set fc \<and>
        (\<exists>a ch. (r, a) \<in> set tas \<and> ch \<in> set (changes a)
           \<and> change_type ch = RENAME_FUNCTION)) \<and>
   ((\<forall>e \<in> set tas. fst e = a) \<and> (\<forall>i \<in> set fc. fst i = a) \<longrightarrow>
      detect_function_rename_conflicts py tas fc = [])"
proof -
  have pairs: "\<exists>r t. sc_tasks_involved c = [r, t] \<and> r \<noteq> t \<and> t \<in> fst ` set fc \<and>
        (\<exists>a ch. (r, a) \<in> set tas \<and> ch \<in> set (changes a) \<and> change_type ch = RENAME_FUNCTION)"
    if "c \<in> set (detect_function_rename_conflicts py tas fc)" for c
  proof -
    from that obtain tid bc ac old new rid ls where
      item: "(tid, bc, ac) \<in> set fc" and
      entry: "(old, new, rid) \<in> set (find_renames tas)" and
      neq: "rid \<noteq> tid" and
      c: "c = rename_conflict (first_file_path tas) old new rid tid ls"
      unfolding rename_mem by blast
    from find_renames_mem [OF entry] obtain a ch where
      "(rid, a) \<in> set tas" "ch \<in> set (changes a)" "change_type ch = RENAME_FUNCTION"
      by blast
    moreover have "sc_tasks_involved c = [rid, tid]"
      by (simp add: c rename_conflict_def)
    moreover have "tid \<in> fst ` set fc"
      using item by force
    ultimately show ?thesis using neq by blast
  qed
  have alone: "detect_function_rename_conflicts py tas fc = []"
    if tas: "\<forall>e \<in> set tas. fst e = a" and fc: "\<forall>i \<in> set fc. fst i = a"
  proof (rule ccontr)
    assume "detect_function_rename_conflicts py tas fc \<noteq> []"
    then obtain c where "c \<in> set (detect_function_rename_conflicts py tas fc)"
      by (cases "detect_function_rename_conflicts py tas fc") auto
    from pairs [OF this] obtain r t b where "r \<noteq> t" "t \<in> fst ` set fc" "(r, b) \<in> set tas"
      by blast
    with tas fc show False by force
  qed
  from pairs alone show ?thesis by blast
qed

theorem rename_skips_own_task_witness:
  "detect_function_rename_conflicts example_ast tas_rename_pair fc_rename_pair \<noteq> []
   \<and> sc_tasks_involved (hd (detect_function_rename_conflicts example_ast tas_rename_pair
        fc_rename_pair)) = [''task-a'', ''task-b'']
   \<and> detect_function_rename_conflicts example_ast tas_same_task fc_same_task = []"
proof -
  let ?cs = "detect_function_rename_conflicts example_ast tas_rename_pair fc_rename_pair"
  have "length ?cs = 1"
    by code_simp
  then have ne: "?cs \<noteq> []"
    by auto
  have tasks: "sc_tasks_involved (hd ?cs) = [''task-a'', ''task-b'']"
    by code_simp
  have "\<forall>e \<in> set tas_same_task. fst e = ''task-a''"
    by (simp add: tas_same_task_def)
  moreover have "\<forall>i \<in> set fc_same_task. fst i = ''task-a''"
    by (simp add: fc_same_task_def)
  ultimately have "detect_function_rename_conflicts example_ast tas_same_task fc_same_task = []"
    using rename_skips_own_task [of example_ast tas_same_task fc_same_task "''task-a''"]
    by blast
  with ne tasks show ?thesis by simp
qed

text \<open>
  C9. A rename change whose before or after snippet is absent or empty is ignored by the
  rename detector: removing all such changes from the input changes neither the rename
  map nor the result, and when every recorded rename is of that kind no conflict is
  emitted, whatever the after-texts call.
\<close>

theorem incomplete_rename_ignored:
  "find_renames (without_incomplete_renames tas) = find_renames tas \<and>
   detect_function_rename_conflicts py (without_incomplete_renames tas) fc
     = detect_function_rename_conflicts py tas fc \<and>
   ((\<forall>e \<in> set tas. \<forall>ch \<in> set (changes (snd e)).
       change_type ch = RENAME_FUNCTION \<longrightarrow> incomplete_rename ch) \<longrightarrow>
    detect_function_rename_conflicts py tas fc = [])"
proof -
  have same: "detect_function_rename_conflicts py (without_incomplete_renames tas) fc
     = detect_function_rename_conflicts py tas fc"
  proof (cases "tas = []")
    case True
    then show ?thesis by (simp add: without_incomplete_renames_def)
  next
    case False
    then show ?thesis
      by (simp add: detect_function_rename_conflicts_def without_nil first_file_path_without
          find_renames_without)
  qed
  have none: "detect_function_rename_conflicts py tas fc = []"
    if all: "\<forall>e \<in> set tas. \<forall>ch \<in> set (changes (snd e)).
       change_type ch = RENAME_FUNCTION \<longrightarrow> incomplete_rename ch"
  proof -
    have "find_renames tas = []"
    proof (rule ccontr)
      assume "find_renames tas \<noteq> []"
      then obtain old new rid where "(old, new, rid) \<in> set (find_renames tas)"
        by (cases "find_renames tas") auto
      from find_renames_mem [OF this] obtain a ch where
        "(rid, a) \<in> set tas" "ch \<in> set (changes a)" "change_type ch = RENAME_FUNCTION"
        "\<not> incomplete_rename ch"
        by blast
      with all show False by force
    qed
    then show ?thesis
      by (cases "tas = []")
        (simp_all add: detect_function_rename_conflicts_def rename_conflicts_of_task_def
          split: prod.splits option.splits)
  qed
  from same none find_renames_without show ?thesis by blast
qed

theorem incomplete_rename_ignored_witness:
  "incomplete_rename (change_rename_foo\<lparr>content_after := None\<rparr>)
   \<and> dict_has (function_calls (the (build_symbol_table example_ast ''test.py'' src_caller_after)))
       ''foo''
   \<and> detect_function_rename_conflicts example_ast tas_rename_incomplete fc_rename_pair = []"
proof -
  have inc: "incomplete_rename (change_rename_foo\<lparr>content_after := None\<rparr>)"
    by (simp add: incomplete_rename_def change_rename_foo_def change_rename_bar_def)
  have calls: "dict_has (function_calls
      (the (build_symbol_table example_ast ''test.py'' src_caller_after))) ''foo''"
    by code_simp
  have "\<forall>e \<in> set tas_rename_incomplete. \<forall>ch \<in> set (changes (snd e)).
       change_type ch = RENAME_FUNCTION \<longrightarrow> incomplete_rename ch"
    using inc by (simp add: tas_rename_incomplete_def analysis_def change_modify_caller_def)
  then have "detect_function_rename_conflicts example_ast tas_rename_incomplete fc_rename_pair = []"
    using incomplete_rename_ignored [of tas_rename_incomplete example_ast fc_rename_pair]
    by blast
  with inc calls show ?thesis by simp
qed

text \<open>
  C1. On the inputs of \<open>test_conflict_rename_and_call_old_name\<close> (task-a renames
  \<open>foo\<close> to \<open>bar\<close> and records the new name as the target, task-b's after-text
  parses and calls \<open>foo\<close> at line 6) the rename detector emits no conflict: it looks
  for calls of the recorded target.
\<close>

theorem rename_test_reports_nothing:
  "map_option (\<lambda>tbl. dict_get (function_calls tbl) ''foo'')
     (build_symbol_table example_ast (first_file_path tas_rename_test) src_caller_after)
     = Some (Some [6])
   \<and> detect_function_rename_conflicts example_ast tas_rename_test fc_rename_test = []"
  by code_simp

text \<open>
  C3 (amended). Let task \<open>A\<close> be the last task, in the order of the task analyses, to
  record a \<open>REMOVE_IMPORT\<close> change for the symbol \<open>s\<close>, and let \<open>B\<close> be another task
  whose after-text gives a symbol table. Then a CRITICAL conflict of kind
  \<open>import_removal\<close> for \<open>s\<close> naming exactly \<open>A\<close> and \<open>B\<close> is emitted if and only if
  \<open>s\<close> is among the usages of \<open>B\<close> and not among its imports. If no task other
  than \<open>A\<close> uses \<open>s\<close> in its after-text, no import-removal conflict for \<open>s\<close> is
  emitted.
\<close>

theorem import_removal_conflict_iff:
  "(tas \<noteq> [] \<and> distinct (map fst fc) \<and> (B, bc, ac) \<in> set fc \<and>
    build_symbol_table py (first_file_path tas) ac = Some tbl \<and>
    removers tas s \<noteq> [] \<and> last (removers tas s) = A \<and> A \<noteq> B \<longrightarrow>
      ((\<exists>c \<in> set (detect_import_removal_conflicts py tas fc).
           conflict_type c = ''import_removal'' \<and> sc_severity c = CRITICAL \<and>
           sc_tasks_involved c = [A, B] \<and> sc_location c = ''import:'' @ s)
        \<longleftrightarrow> dict_has (usages tbl) s \<and> \<not> dict_has (imports' tbl) s))
   \<and> (removers tas s \<noteq> [] \<and> last (removers tas s) = A \<and>
        (\<forall>i \<in> set fc. fst i \<noteq> A \<longrightarrow>
           (\<forall>t. build_symbol_table py (first_file_path tas) (snd (snd i)) = Some t
              \<longrightarrow> \<not> dict_has (usages t) s)) \<longrightarrow>
        \<not> (\<exists>c \<in> set (detect_import_removal_conflicts py tas fc).
              sc_location c = ''import:'' @ s))"
proof (rule conjI)
  show "tas \<noteq> [] \<and> distinct (map fst fc) \<and> (B, bc, ac) \<in> set fc \<and>
    build_symbol_table py (first_file_path tas) ac = Some tbl \<and>
    removers tas s \<noteq> [] \<and> last (removers tas s) = A \<and> A \<noteq> B \<longrightarrow>
      ((\<exists>c \<in> set (detect_import_removal_conflicts py tas fc).
           conflict_type c = ''import_removal'' \<and> sc_severity c = CRITICAL \<and>
           sc_tasks_involved c = [A, B] \<and> sc_location c = ''import:'' @ s)
        \<longleftrightarrow> dict_has (usages tbl) s \<and> \<not> dict_has (imports' tbl) s)"
    using removal_conflict_iff_aux [of tas fc B bc ac py tbl s A] by blast
  show "removers tas s \<noteq> [] \<and> last (removers tas s) = A \<and>
        (\<forall>i \<in> set fc. fst i \<noteq> A \<longrightarrow>
           (\<forall>t. build_symbol_table py (first_file_path tas) (snd (snd i)) = Some t
              \<longrightarrow> \<not> dict_has (usages t) s)) \<longrightarrow>
        \<not> (\<exists>c \<in> set (detect_import_removal_conflicts py tas fc).
              sc_location c = ''import:'' @ s)"
    using removal_unused_aux [of tas s A fc py] by blast
qed

theorem import_removal_conflict_iff_witness:
  "removers tas_import_test ''List'' = [''task-a'']
   \<and> dict_has (usages (the (build_symbol_table example_ast ''test.py'' src_process_after)))
       ''List''
   \<and> \<not> dict_has (imports' (the (build_symbol_table example_ast ''test.py'' src_process_after)))
       ''List''
   \<and> (\<exists>c \<in> set (detect_import_removal_conflicts example_ast tas_import_test fc_import_test).
         conflict_type c = ''import_removal'' \<and> sc_severity c = CRITICAL \<and>
         sc_tasks_involved c = [''task-a'', ''task-b''] \<and> sc_location c = ''import:List'')
   \<and> \<not> dict_has (usages (the (build_symbol_table example_ast ''test.py'' src_caller_after)))
       ''List''
   \<and> \<not> (\<exists>c \<in> set (detect_import_removal_conflicts example_ast tas_import_test fc_rename_test).
         sc_location c = ''import:List'')
   \<and> removers tas_unused_test ''os'' = [''task-a'']
   \<and> \<not> (\<exists>c \<in> set (detect_import_removal_conflicts example_ast tas_unused_test fc_unused_test).
         sc_location c = ''import:os'')"
proof -
  let ?tbl = "the (build_symbol_table example_ast ''test.py'' src_process_after)"
  have rem: "removers tas_import_test ''List'' = [''task-a'']"
    by code_simp
  have tas: "tas_import_test \<noteq> []"
    by (simp add: tas_import_test_def)
  have fc: "distinct (map fst fc_import_test)"
    by (simp add: fc_import_test_def)
  have item: "(''task-b'', src_process_before, src_process_after) \<in> set fc_import_test"
    by (simp add: fc_import_test_def)
  have tbl: "build_symbol_table example_ast (first_file_path tas_import_test) src_process_after
      = Some ?tbl"
    by code_simp
  have used: "dict_has (usages ?tbl) ''List''"
    by code_simp
  have not_imported: "\<not> dict_has (imports' ?tbl) ''List''"
    by code_simp
  have neq: "''task-a'' \<noteq> ''task-b''"
    by simp
  note inst = import_removal_conflict_iff [of tas_import_test fc_import_test "''task-b''"
        src_process_before src_process_after example_ast ?tbl "''List''" "''task-a''"]
  have "\<exists>c \<in> set (detect_import_removal_conflicts example_ast tas_import_test fc_import_test).
         conflict_type c = ''import_removal'' \<and> sc_severity c = CRITICAL \<and>
         sc_tasks_involved c = [''task-a'', ''task-b''] \<and> sc_location c = ''import:'' @ ''List''"
    using inst tas fc item tbl rem used not_imported neq
    by simp
  then have found: "\<exists>c \<in> set (detect_import_removal_conflicts example_ast tas_import_test
        fc_import_test).
         conflict_type c = ''import_removal'' \<and> sc_severity c = CRITICAL \<and>
         sc_tasks_involved c = [''task-a'', ''task-b''] \<and> sc_location c = ''import:List''"
    by simp
  have tbl_c: "build_symbol_table example_ast (first_file_path tas_import_test) src_caller_after
      = Some (the (build_symbol_table example_ast ''test.py'' src_caller_after))"
    by code_simp
  have unused_c: "\<not> dict_has
      (usages (the (build_symbol_table example_ast ''test.py'' src_caller_after))) ''List''"
    by code_simp
  have "\<forall>i \<in> set fc_rename_test. fst i \<noteq> ''task-a'' \<longrightarrow>
      (\<forall>t. build_symbol_table example_ast (first_file_path tas_import_test) (snd (snd i)) = Some t
         \<longrightarrow> \<not> dict_has (usages t) ''List'')"
    using tbl_c unused_c by (simp add: fc_rename_test_def)
  then have "\<not> (\<exists>c \<in> set (detect_import_removal_conflicts example_ast tas_import_test
        fc_rename_test). sc_location c = ''import:'' @ ''List'')"
    using import_removal_conflict_iff [of tas_import_test fc_rename_test "''task-b''"
        src_process_before src_process_after example_ast ?tbl "''List''" "''task-a''"] rem
    by simp
  then have none_c: "\<not> (\<exists>c \<in> set (detect_import_removal_conflicts example_ast tas_import_test
        fc_rename_test). sc_location c = ''import:List'')"
    by simp
  have rem_u: "removers tas_unused_test ''os'' = [''task-a'']"
    by code_simp
  have "\<forall>i \<in> set fc_unused_test. fst i \<noteq> ''task-a'' \<longrightarrow>
      (\<forall>t. build_symbol_table example_ast (first_file_path tas_unused_test) (snd (snd i)) = Some t
         \<longrightarrow> \<not> dict_has (usages t) ''os'')"
    by (simp add: fc_unused_test_def)
  then have "\<not> (\<exists>c \<in> set (detect_import_removal_conflicts example_ast tas_unused_test
        fc_unused_test). sc_location c = ''import:'' @ ''os'')"
    using import_removal_conflict_iff [of tas_unused_test fc_unused_test "''task-b''"
        src_process_before src_process_after example_ast ?tbl "''os''" "''task-a''"] rem_u
    by simp
  then have none: "\<not> (\<exists>c \<in> set (detect_import_removal_conflicts example_ast tas_unused_test
        fc_unused_test). sc_location c = ''import:os'')"
    by simp
  show ?thesis
    using rem used not_imported found unused_c none_c rem_u none by blast
qed

text \<open>
  C3 as stated fails when two tasks record the removal of the same import: task-a and
  task-c both remove \<open>List\<close>, task-b uses it without importing it, and the only
  conflict names task-c and task-b.
\<close>

theorem import_removal_names_last_remover_only:
  "removers tas_import_twice ''List'' = [''task-a'', ''task-c'']
   \<and> map_option (\<lambda>t. (dict_has (usages t) ''List'', dict_has (imports' t) ''List''))
        (build_symbol_table example_ast (first_file_path tas_import_twice) src_process_after)
       = Some (True, False)
   \<and> map sc_tasks_involved
        (detect_import_removal_conflicts example_ast tas_import_twice fc_import_test)
       = [[''task-c'', ''task-b'']]"
  by code_simp

text \<open>
  C4 (amended). Let a task's before and after tables both record a non-empty return
  annotation for the function \<open>f\<close>, and let no task later in the order of the file
  contents change the recorded annotation of \<open>f\<close>. Then a MEDIUM conflict of kind
  \<open>type_change\<close> for \<open>f\<close> naming that task is emitted if and only if the new
  annotation text contains the substring \<open>None\<close> and the old one does not.
\<close>

theorem type_change_conflict_iff:
  assumes tas: "tas \<noteq> []"
    and fc: "distinct (map fst fc)"
    and parts: "fc = pre @ (T, bc, ac) # post"
    and b: "build_symbol_table py (first_file_path tas) bc = Some b"
    and a: "build_symbol_table py (first_file_path tas) ac = Some a"
    and old: "dict_get (function_signatures b) f = Some (Some old)"
    and new: "dict_get (function_signatures a) f = Some (Some new)"
    and nonempty: "old \<noteq> []" "new \<noteq> []"
    and later: "\<forall>i \<in> set post. task_signature_change py (first_file_path tas) f i = None"
  shows "(\<exists>c \<in> set (detect_type_change_conflicts py tas fc).
            conflict_type c = ''type_change'' \<and> sc_severity c = MEDIUM \<and>
            sc_tasks_involved c = [T] \<and> sc_location c = ''function:'' @ f)
         \<longleftrightarrow> str_contains ''None'' new \<and> \<not> str_contains ''None'' old"
proof
  let ?fp = "first_file_path tas"
  assume "\<exists>c \<in> set (detect_type_change_conflicts py tas fc).
            conflict_type c = ''type_change'' \<and> sc_severity c = MEDIUM \<and>
            sc_tasks_involved c = [T] \<and> sc_location c = ''function:'' @ f"
  then obtain c where c: "c \<in> set (detect_type_change_conflicts py tas fc)"
    and tasks: "sc_tasks_involved c = [T]" and loc: "sc_location c = ''function:'' @ f"
    by blast
  have item: "(T, bc, ac) \<in> set fc"
    by (simp add: parts)
  from type_conflict_origin [OF fc item c loc tasks] obtain ot nt where
    ch: "task_signature_change py ?fp f (T, bc, ac) = Some (Some ot, Some nt, T)"
    and marker: "str_contains ''None'' nt" "\<not> str_contains ''None'' ot"
    by blast
  from ch task_signature_change_own [OF b a old new, of T]
  have "ot = old" "nt = new"
    by (simp_all split: if_splits)
  with marker show "str_contains ''None'' new \<and> \<not> str_contains ''None'' old"
    by simp
next
  let ?fp = "first_file_path tas"
  let ?mf = "List.map_filter (task_signature_change py ?fp f)"
  assume marker: "str_contains ''None'' new \<and> \<not> str_contains ''None'' old"
  then have "old \<noteq> new" by auto
  then have own: "task_signature_change py ?fp f (T, bc, ac) = Some (Some old, Some new, T)"
    using task_signature_change_own [OF b a old new, of T] by simp
  have "?mf fc = ?mf pre @ [(Some old, Some new, T)]"
    using own map_filter_none [OF later]
    by (simp add: parts map_filter_append)
  then have "(f, Some old, Some new, T) \<in> set (find_type_changes py ?fp fc)"
    by (simp add: find_type_changes_mem)
  with tas marker nonempty
  have "type_conflict ?fp f old new T \<in> set (detect_type_change_conflicts py tas fc)"
    unfolding type_mem by blast
  moreover have "conflict_type (type_conflict ?fp f old new T) = ''type_change''"
    "sc_severity (type_conflict ?fp f old new T) = MEDIUM"
    "sc_tasks_involved (type_conflict ?fp f old new T) = [T]"
    "sc_location (type_conflict ?fp f old new T) = ''function:'' @ f"
    by (simp_all add: type_conflict_def)
  ultimately show "\<exists>c \<in> set (detect_type_change_conflicts py tas fc).
            conflict_type c = ''type_change'' \<and> sc_severity c = MEDIUM \<and>
            sc_tasks_involved c = [T] \<and> sc_location c = ''function:'' @ f"
    by blast
qed

theorem type_change_conflict_iff_witness:
  "dict_get (function_signatures (the (build_symbol_table example_ast ''test.py'' src_user)))
      ''get_user'' = Some (Some ''User'')
   \<and> dict_get (function_signatures
        (the (build_symbol_table example_ast ''test.py'' src_user_or_none)))
      ''get_user'' = Some (Some ''User | None'')
   \<and> str_contains ''None'' ''User | None'' \<and> \<not> str_contains ''None'' ''User''
   \<and> (\<exists>c \<in> set (detect_type_change_conflicts example_ast tas_type_test fc_type_test).
         conflict_type c = ''type_change'' \<and> sc_severity c = MEDIUM \<and>
         sc_tasks_involved c = [''task-a''] \<and> sc_location c = ''function:get_user'')"
proof -
  let ?b = "the (build_symbol_table example_ast ''test.py'' src_user)"
  let ?a = "the (build_symbol_table example_ast ''test.py'' src_user_or_none)"
  have tas: "tas_type_test \<noteq> []"
    by (simp add: tas_type_test_def)
  have fc: "distinct (map fst fc_type_test)"
    by (simp add: fc_type_test_def)
  have parts: "fc_type_test = [] @ (''task-a'', src_user, src_user_or_none) # []"
    by (simp add: fc_type_test_def)
  have b: "build_symbol_table example_ast (first_file_path tas_type_test) src_user = Some ?b"
    by code_simp
  have a: "build_symbol_table example_ast (first_file_path tas_type_test) src_user_or_none
      = Some ?a"
    by code_simp
  have old: "dict_get (function_signatures ?b) ''get_user'' = Some (Some ''User'')"
    by code_simp
  have new: "dict_get (function_signatures ?a) ''get_user'' = Some (Some ''User | None'')"
    by code_simp
  have marker: "str_contains ''None'' ''User | None'' \<and> \<not> str_contains ''None'' ''User''"
    by code_simp
  have "\<exists>c \<in> set (detect_type_change_conflicts example_ast tas_type_test fc_type_test).
         conflict_type c = ''type_change'' \<and> sc_severity c = MEDIUM \<and>
         sc_tasks_involved c = [''task-a''] \<and> sc_location c = ''function:'' @ ''get_user''"
    using type_change_conflict_iff [OF tas fc parts b a old new] marker
    by simp
  then have "\<exists>c \<in> set (detect_type_change_conflicts example_ast tas_type_test fc_type_test).
         conflict_type c = ''type_change'' \<and> sc_severity c = MEDIUM \<and>
         sc_tasks_involved c = [''task-a''] \<and> sc_location c = ''function:get_user''"
    by simp
  with old new marker show ?thesis by blast
qed

text \<open>
  C4 as stated fails in two ways. A change from \<open>User\<close> to \<open>Optional[User]\<close> is not
  flagged: the marker looked for is the substring \<open>None\<close>. And when task-a changes
  \<open>User\<close> to \<open>User | None\<close> and task-b, later, changes \<open>User\<close> to \<open>int\<close>, only
  the later change is kept for the function and nothing is flagged.
\<close>

theorem type_change_unflagged_examples:
  "map_option (\<lambda>t. dict_get (function_signatures t) ''get_user'')
      (build_symbol_table example_ast ''test.py'' src_user) = Some (Some (Some ''User''))
   \<and> map_option (\<lambda>t. dict_get (function_signatures t) ''get_user'')
      (build_symbol_table example_ast ''test.py'' src_user_optional)
       = Some (Some (Some ''Optional[User]''))
   \<and> detect_type_change_conflicts example_ast tas_type_test fc_type_optional = []
   \<and> map_option (\<lambda>t. dict_get (function_signatures t) ''get_user'')
      (build_symbol_table example_ast ''test.py'' src_user_or_none)
       = Some (Some (Some ''User | None''))
   \<and> detect_type_change_conflicts example_ast tas_type_pair fc_type_pair = []"
  by code_simp

text \<open>
  C10. When the recorded return annotation of a function is absent in the before
  version or in the after version of a task's file, the type-change detector emits no
  conflict for that function naming that task.
\<close>

theorem absent_annotation_not_flagged:
  assumes fc: "distinct (map fst fc)"
    and item: "(T, bc, ac) \<in> set fc"
    and b: "build_symbol_table py (first_file_path tas) bc = Some b"
    and a: "build_symbol_table py (first_file_path tas) ac = Some a"
    and absent: "dict_get (function_signatures b) f = Some None
                 \<or> dict_get (function_signatures a) f = Some None"
  shows "\<not> (\<exists>c \<in> set (detect_type_change_conflicts py tas fc).
              sc_location c = ''function:'' @ f \<and> sc_tasks_involved c = [T])"
proof
  assume "\<exists>c \<in> set (detect_type_change_conflicts py tas fc).
              sc_location c = ''function:'' @ f \<and> sc_tasks_involved c = [T]"
  then obtain c where c: "c \<in> set (detect_type_change_conflicts py tas fc)"
    and loc: "sc_location c = ''function:'' @ f" and tasks: "sc_tasks_involved c = [T]"
    by blast
  from type_conflict_origin [OF fc item c loc tasks] obtain ot nt where
    "task_signature_change py (first_file_path tas) f (T, bc, ac) = Some (Some ot, Some nt, T)"
    by blast
  then have "dict_get (function_signatures b) f = Some (Some ot)"
    "dict_get (function_signatures a) f = Some (Some nt)"
    using a b
    by (auto simp: task_signature_change_def signature_change_def split: option.splits if_splits)
  with absent show False by auto
qed

theorem absent_annotation_not_flagged_witness:
  "dict_get (function_signatures
       (the (build_symbol_table example_ast ''test.py'' src_user_plain)))
      ''get_user'' = Some None
   \<and> dict_get (function_signatures
        (the (build_symbol_table example_ast ''test.py'' src_user_or_none)))
      ''get_user'' = Some (Some ''User | None'')
   \<and> \<not> (\<exists>c \<in> set (detect_type_change_conflicts example_ast tas_type_test fc_type_unannotated).
           sc_location c = ''function:get_user'' \<and> sc_tasks_involved c = [''task-a''])"
proof -
  let ?b = "the (build_symbol_table example_ast ''test.py'' src_user_plain)"
  let ?a = "the (build_symbol_table example_ast ''test.py'' src_user_or_none)"
  have fc: "distinct (map fst fc_type_unannotated)"
    by (simp add: fc_type_unannotated_def)
  have item: "(''task-a'', src_user_plain, src_user_or_none) \<in> set fc_type_unannotated"
    by (simp add: fc_type_unannotated_def)
  have b: "build_symbol_table example_ast (first_file_path tas_type_test) src_user_plain
      = Some ?b"
    by code_simp
  have a: "build_symbol_table example_ast (first_file_path tas_type_test) src_user_or_none
      = Some ?a"
    by code_simp
  have old: "dict_get (function_signatures ?b) ''get_user'' = Some None"
    by code_simp
  have new: "dict_get (function_signatures ?a) ''get_user'' = Some (Some ''User | None'')"
    by code_simp
  have "\<not> (\<exists>c \<in> set (detect_type_change_conflicts example_ast tas_type_test fc_type_unannotated).
           sc_location c = ''function:'' @ ''get_user'' \<and> sc_tasks_involved c = [''task-a''])"
    using absent_annotation_not_flagged [OF fc item b a] old by blast
  then have "\<not> (\<exists>c \<in> set (detect_type_change_conflicts example_ast tas_type_test
        fc_type_unannotated).
           sc_location c = ''function:get_user'' \<and> sc_tasks_involved c = [''task-a''])"
    by simp
  with old new show ?thesis by blast
qed



end
